theory Spec2Isabelle
  imports Main "HOL-Library.Sublist" "HOL-Library.AList"
begin

section \<open>Python string primitives\<close>

text \<open>
  Strings are \<open>char list\<close>.  The character classes are those of Python's \<open>str\<close>
  methods and of the \<open>re\<close> module restricted to ASCII text: \<open>isspace\<close> (and the
  regular-expression class \<open>\s\<close>) holds for the code points 9..13 and 28..32,
  \<open>isalnum\<close> for letters and digits, and a word character (\<open>\w\<close>, used by \<open>\b\<close>) is
  an alphanumeric character or the underscore.
\<close>

definition isspace :: "char \<Rightarrow> bool" where
  "isspace c = (let n = (of_char c :: nat) in (9 \<le> n \<and> n \<le> 13) \<or> (28 \<le> n \<and> n \<le> 32))"

definition isdigit :: "char \<Rightarrow> bool" where
  "isdigit c = (let n = (of_char c :: nat) in 48 \<le> n \<and> n \<le> 57)"

definition isupper :: "char \<Rightarrow> bool" where
  "isupper c = (let n = (of_char c :: nat) in 65 \<le> n \<and> n \<le> 90)"

definition islower :: "char \<Rightarrow> bool" where
  "islower c = (let n = (of_char c :: nat) in 97 \<le> n \<and> n \<le> 122)"

definition isalpha :: "char \<Rightarrow> bool" where
  "isalpha c = (isupper c \<or> islower c)"

definition isalnum :: "char \<Rightarrow> bool" where
  "isalnum c = (isalpha c \<or> isdigit c)"

definition is_word_char :: "char \<Rightarrow> bool" where
  "is_word_char c = (isalnum c \<or> c = CHR ''_'')"

definition lower_char :: "char \<Rightarrow> char" where
  "lower_char c = (if isupper c then char_of ((of_char c :: nat) + 32) else c)"

definition upper_char :: "char \<Rightarrow> char" where
  "upper_char c = (if islower c then char_of ((of_char c :: nat) - 32) else c)"

definition str_lower :: "string \<Rightarrow> string" where
  "str_lower s = map lower_char s"

definition str_upper :: "string \<Rightarrow> string" where
  "str_upper s = map upper_char s"

definition lstrip :: "string \<Rightarrow> string" where
  "lstrip s = dropWhile isspace s"

definition rstrip :: "string \<Rightarrow> string" where
  "rstrip s = rev (dropWhile isspace (rev s))"

definition str_strip :: "string \<Rightarrow> string" where
  "str_strip s = lstrip (rstrip s)"

text \<open>\<open>s.strip('_')\<close>: strip a given character from both ends.\<close>

definition strip_char :: "char \<Rightarrow> string \<Rightarrow> string" where
  "strip_char x s = dropWhile (\<lambda>c. c = x) (rev (dropWhile (\<lambda>c. c = x) (rev s)))"

text \<open>\<open>sub in s\<close> and \<open>s.startswith(p)\<close>.\<close>

definition str_contains :: "string \<Rightarrow> string \<Rightarrow> bool" where
  "str_contains sub s = sublist sub s"

definition startswith :: "string \<Rightarrow> string \<Rightarrow> bool" where
  "startswith s p = prefix p s"

text \<open>\<open>s.find(sub)\<close> as the text after the first occurrence of \<open>sub\<close>, together with
  the text before it; \<open>None\<close> when there is no occurrence.\<close>

fun find_sub :: "string \<Rightarrow> string \<Rightarrow> string \<Rightarrow> (string \<times> string) option" where
  "find_sub sub pre [] = (if sub = [] then Some (pre, []) else None)"
| "find_sub sub pre (c # cs) =
     (if prefix sub (c # cs) then Some (pre, drop (length sub) (c # cs))
      else find_sub sub (pre @ [c]) cs)"

text \<open>\<open>s.split(sep)\<close> for a non-empty separator: the pieces between the
  non-overlapping occurrences of \<open>sep\<close>, found from the left.  \<open>skip\<close> counts
  the characters of a separator that is being passed over.\<close>

fun split_go :: "string \<Rightarrow> nat \<Rightarrow> string \<Rightarrow> string \<Rightarrow> string list" where
  "split_go sep skip cur [] = [cur]"
| "split_go sep (Suc k) cur (c # cs) = split_go sep k cur cs"
| "split_go sep 0 cur (c # cs) =
     (if prefix sep (c # cs) then cur # split_go sep (length sep - 1) [] cs
      else split_go sep 0 (cur @ [c]) cs)"

definition str_split :: "string \<Rightarrow> string \<Rightarrow> string list" where
  "str_split s sep = split_go sep 0 [] s"

text \<open>\<open>s.replace('""', '"')\<close> on a double-quoted identifier's interior.\<close>

fun unescape_dquotes :: "string \<Rightarrow> string" where
  "unescape_dquotes (a # b # cs) =
     (if a = CHR 0x22 \<and> b = CHR 0x22 then CHR 0x22 # unescape_dquotes cs
      else a # unescape_dquotes (b # cs))"
| "unescape_dquotes cs = cs"

text \<open>Decimal rendering of integers, as \<open>str(n)\<close> and \<open>f"{n}"\<close> produce it, and
  the grouped form \<open>f"{n:,}"\<close>.\<close>

definition digit_char :: "nat \<Rightarrow> char" where
  "digit_char d = ''0123456789'' ! d"

fun str_nat :: "nat \<Rightarrow> string" where
  "str_nat n = (if n < 10 then [digit_char n] else str_nat (n div 10) @ [digit_char (n mod 10)])"

declare str_nat.simps [simp del]

definition str_int :: "int \<Rightarrow> string" where
  "str_int i = (if i < 0 then CHR ''-'' # str_nat (nat (- i)) else str_nat (nat i))"

definition pad3 :: "nat \<Rightarrow> string" where
  "pad3 m = [digit_char (m div 100), digit_char ((m div 10) mod 10), digit_char (m mod 10)]"

fun fmt_commas :: "nat \<Rightarrow> string" where
  "fmt_commas n =
     (if n < 1000 then str_nat n else fmt_commas (n div 1000) @ CHR '','' # pad3 (n mod 1000))"

declare fmt_commas.simps [simp del]

section \<open>errors.py\<close>

text \<open>
  The exception classes of \<open>errors.py\<close>.  Every class derives from
  \<open>SQLiteExcelError\<close>, whose constructor stores \<open>message\<close> and passes
  \<open>"Error: " + message\<close> to \<open>Exception\<close>; \<open>str(e)\<close> is therefore that text.
  (\<open>TimeoutError\<close> formats a floating-point number and is raised nowhere; it is
  left out.)
\<close>

datatype excel_error =
    SQLiteExcelError string
  | TableNotFoundError string
  | ColumnNotFoundError string
  | DuplicateColumnError string
  | EmptyColumnNameError "nat option"
  | QuerySyntaxError "string option" "string option"
  | RangeResolutionError string "string option"
  | EmptyRangeError string
  | TypeInferenceError string "string option"
  | ExecutionError string
  | OutputLimitError int int

text \<open>Python truthiness of an optional string argument (\<open>if reason:\<close>).\<close>

fun truthy :: "string option \<Rightarrow> bool" where
  "truthy None = False"
| "truthy (Some s) = (s \<noteq> [])"

fun message :: "excel_error \<Rightarrow> string" where
  "message (SQLiteExcelError m) = m"
| "message (TableNotFoundError t) = ''no such table: '' @ t"
| "message (ColumnNotFoundError c) = ''no such column: '' @ c"
| "message (DuplicateColumnError c) = ''duplicate column name: '' @ c"
| "message (EmptyColumnNameError position) =
     (case position of
        Some p \<Rightarrow> ''column name cannot be empty (position '' @ str_nat p @ '')''
      | None \<Rightarrow> ''column name cannot be empty'')"
| "message (QuerySyntaxError near_token details) =
     (if truthy near_token then ''near \"'' @ the near_token @ ''\": syntax error''
      else if truthy details then the details
      else ''syntax error'')"
| "message (RangeResolutionError range_ref reason) =
     (if truthy reason then ''cannot resolve range: '' @ range_ref @ '' ('' @ the reason @ '')''
      else ''cannot resolve range: '' @ range_ref)"
| "message (EmptyRangeError range_ref) = ''range contains no data: '' @ range_ref"
| "message (TypeInferenceError column_name reason) =
     (if truthy reason
      then ''cannot infer type for column ''  @ [CHR 0x27] @ column_name @ [CHR 0x27] @ '': '' @ the reason
      else ''cannot infer type for column '' @ [CHR 0x27] @ column_name @ [CHR 0x27])"
| "message (ExecutionError m) = m"
| "message (OutputLimitError row_count limit) =
     ''result set too large: '' @ str_int row_count @ '' rows (limit: '' @ str_int limit
       @ ''). Use LIMIT clause to reduce output.''"

definition str_error :: "excel_error \<Rightarrow> string" where
  "str_error e = ''Error: '' @ message e"

text \<open>
  Everything that can be raised inside one invocation: an error of this package, one of
  the \<open>sqlite3\<close> exception classes (with its message), any other \<open>Exception\<close>
  (with its \<open>str\<close>), or an exception outside the \<open>Exception\<close> hierarchy
  (\<open>KeyboardInterrupt\<close>, \<open>SystemExit\<close>), which an \<open>except Exception\<close> clause does
  not catch.
\<close>

datatype exn =
    Excel excel_error
  | OperationalError string
  | IntegrityError string
  | ProgrammingError string
  | DatabaseError string
  | OtherException string
  | BaseException string

fun str_exn :: "exn \<Rightarrow> string" where
  "str_exn (Excel e) = str_error e"
| "str_exn (OperationalError m) = m"
| "str_exn (IntegrityError m) = m"
| "str_exn (ProgrammingError m) = m"
| "str_exn (DatabaseError m) = m"
| "str_exn (OtherException m) = m"
| "str_exn (BaseException m) = m"

fun normalize_sqlite_error :: "exn \<Rightarrow> excel_error" where
  "normalize_sqlite_error (OperationalError error_msg) =
     (let parts = str_split error_msg ''no such table:'' in
      if str_contains ''no such table'' error_msg \<and> length parts > 1
      then TableNotFoundError (str_strip (parts ! 1))
      else
        let parts = str_split error_msg ''no such column:'' in
        if str_contains ''no such column'' error_msg \<and> length parts > 1
        then ColumnNotFoundError (str_strip (parts ! 1))
        else if str_contains ''syntax error'' (str_lower error_msg)
        then QuerySyntaxError None (Some error_msg)
        else ExecutionError error_msg)"
| "normalize_sqlite_error (IntegrityError error_msg) =
     ExecutionError (''integrity error: '' @ error_msg)"
| "normalize_sqlite_error (ProgrammingError error_msg) =
     ExecutionError (''programming error: '' @ error_msg)"
| "normalize_sqlite_error (DatabaseError error_msg) = ExecutionError error_msg"
| "normalize_sqlite_error e = ExecutionError (str_exn e)"

fun format_error_for_excel :: "exn \<Rightarrow> string" where
  "format_error_for_excel (Excel e) = str_error e"
| "format_error_for_excel e = str_error (normalize_sqlite_error e)"

section \<open>schema.py: header validation\<close>

text \<open>
  A header cell is \<open>None\<close>, a string, or any other value; for the last only its
  \<open>str()\<close> matters.
\<close>

datatype header = HNone | HStr string | HObj string

fun py_str :: "header \<Rightarrow> string" where
  "py_str HNone = ''None''"
| "py_str (HStr s) = s"
| "py_str (HObj s) = s"

fun is_blank_str :: "header \<Rightarrow> bool" where
  "is_blank_str (HStr s) = (str_strip s = [])"
| "is_blank_str _ = False"

text \<open>The loop of \<open>validate_headers\<close>; \<open>i\<close> is the index of \<open>enumerate\<close>,
  \<open>seen\<close> the dictionary from lower-cased name to original name.\<close>

fun validate_headers_loop ::
  "nat \<Rightarrow> header list \<Rightarrow> string list \<Rightarrow> (string \<rightharpoonup> string) \<Rightarrow> excel_error + string list" where
  "validate_headers_loop i [] validated seen = Inr validated"
| "validate_headers_loop i (header # rest) validated seen =
     (if header = HNone \<or> is_blank_str header then Inl (EmptyColumnNameError (Some (i + 1)))
      else
        let header_str = str_strip (py_str header) in
        if header_str = [] then Inl (EmptyColumnNameError (Some (i + 1)))
        else
          let lower = str_lower header_str in
          if seen lower \<noteq> None then Inl (DuplicateColumnError header_str)
          else validate_headers_loop (i + 1) rest (validated @ [header_str])
                 (seen(lower \<mapsto> header_str)))"

definition validate_headers :: "header list \<Rightarrow> excel_error + string list" where
  "validate_headers headers = validate_headers_loop 0 headers [] Map.empty"

section \<open>executor.py\<close>

text \<open>
  Values of result rows are the Python values \<open>sqlite3\<close> returns; floating-point
  numbers are kept abstract (type \<open>'f\<close>).  The field \<open>execution_time_ms\<close> of
  \<open>ExecutionResult\<close> is a wall-clock measurement and is not part of the model.
\<close>

datatype 'f pyval = PNone | PInt int | PFloat 'f | PStr string | PBytes string

record 'f ExecutionResult =
  columns :: "string list"
  rows :: "'f pyval list list"
  rowcount :: int
  lastrowid :: "int option"
  query_type :: string

definition is_select :: "'f ExecutionResult \<Rightarrow> bool" where
  "is_select r = (str_upper (query_type r) = ''SELECT'')"

definition detect_query_type :: "string \<Rightarrow> string" where
  "detect_query_type query =
     (let stripped = str_upper (str_strip query) in
      if startswith stripped ''WITH'' then
        (if str_contains ''SELECT'' stripped then ''SELECT'' else ''OTHER'')
      else
        (case find (\<lambda>keyword. startswith stripped keyword)
                [''SELECT'', ''INSERT'', ''UPDATE'', ''DELETE'', ''CREATE'', ''DROP'',
                 ''PRAGMA'', ''EXPLAIN''] of
           Some keyword \<Rightarrow> keyword
         | None \<Rightarrow> ''OTHER''))"

text \<open>The loop of \<open>split_statements\<close>: \<open>current\<close> collects the characters of the
  statement being read, \<open>string_char\<close> is the quote that opened the literal being read
  (\<open>in_string\<close> holds exactly when it is set).\<close>

definition flush :: "string \<Rightarrow> string list \<Rightarrow> string list" where
  "flush current statements =
     (let stmt = str_strip current in if stmt \<noteq> [] then statements @ [stmt] else statements)"

fun split_loop :: "bool \<Rightarrow> char option \<Rightarrow> string \<Rightarrow> string list \<Rightarrow> string \<Rightarrow> string list" where
  "split_loop in_string string_char current statements [] = flush current statements"
| "split_loop in_string string_char current statements (c # cs) =
     (if (c = CHR 0x27 \<or> c = CHR 0x22) \<and> \<not> in_string then
        split_loop True (Some c) (current @ [c]) statements cs
      else if Some c = string_char \<and> in_string then
        (case cs of
           d # ds \<Rightarrow>
             if Some d = string_char then split_loop in_string string_char (current @ [c, c]) statements ds
             else split_loop False None (current @ [c]) statements cs
         | [] \<Rightarrow> split_loop False None (current @ [c]) statements cs)
      else if c = CHR '';'' \<and> \<not> in_string then
        split_loop in_string string_char [] (flush current statements) cs
      else split_loop in_string string_char (current @ [c]) statements cs)"

definition split_statements :: "string \<Rightarrow> string list" where
  "split_statements sql = split_loop False None [] [] sql"

text \<open>
  The database engine is a parameter.  \<open>cursor_execute conn sql params\<close> stands for
  \<open>cursor.execute(sql, params)\<close> followed by reading the cursor: it raises, or it gives
  the new state of the connection and what the cursor holds.
\<close>

record 'f cursor =
  description :: "string list option"
  fetchall :: "'f pyval list list"
  cur_rowcount :: int
  cur_lastrowid :: "int option"

type_synonym ('db, 'f) engine = "'db \<Rightarrow> string \<Rightarrow> 'f pyval list \<Rightarrow> exn + ('db \<times> 'f cursor)"

definition execute_query ::
  "('db, 'f) engine \<Rightarrow> 'db \<Rightarrow> string \<Rightarrow> 'f pyval list \<Rightarrow> exn + ('db \<times> 'f ExecutionResult)" where
  "execute_query cursor_execute conn query params =
     (let qt = detect_query_type query in
      case cursor_execute conn query params of
        Inl e \<Rightarrow> Inl e
      | Inr (conn', cur) \<Rightarrow>
          if qt \<in> {''SELECT'', ''PRAGMA'', ''EXPLAIN''} then
            Inr (conn',
                 \<lparr>columns = (case description cur of Some d \<Rightarrow> d | None \<Rightarrow> []),
                  rows = fetchall cur,
                  rowcount = int (length (fetchall cur)),
                  lastrowid = None,
                  query_type = qt\<rparr>)
          else
            Inr (conn',
                 \<lparr>columns = [], rows = [], rowcount = cur_rowcount cur,
                  lastrowid = cur_lastrowid cur, query_type = qt\<rparr>))"

definition empty_result :: "'f ExecutionResult" where
  "empty_result = \<lparr>columns = [], rows = [], rowcount = 0, lastrowid = None, query_type = ''EMPTY''\<rparr>"

text \<open>The loop of \<open>execute_multiple_statements\<close> (called without \<open>params_list\<close>, so
  every statement runs with the empty parameter tuple).\<close>

fun multi_loop ::
  "('db, 'f) engine \<Rightarrow> 'db \<Rightarrow> string list \<Rightarrow> 'f ExecutionResult option \<Rightarrow> 'f ExecutionResult option
     \<Rightarrow> exn + ('db \<times> 'f ExecutionResult option \<times> 'f ExecutionResult option)" where
  "multi_loop cursor_execute conn [] last_select_result last_result =
     Inr (conn, last_select_result, last_result)"
| "multi_loop cursor_execute conn (stmt # stmts) last_select_result last_result =
     (let stmt = str_strip stmt in
      if stmt = [] then multi_loop cursor_execute conn stmts last_select_result last_result
      else
        case execute_query cursor_execute conn stmt [] of
          Inl e \<Rightarrow> Inl e
        | Inr (conn', result) \<Rightarrow>
            multi_loop cursor_execute conn' stmts
              (if is_select result then Some result else last_select_result) (Some result))"

definition execute_multiple_statements ::
  "('db, 'f) engine \<Rightarrow> 'db \<Rightarrow> string \<Rightarrow> exn + ('db \<times> 'f ExecutionResult)" where
  "execute_multiple_statements cursor_execute conn sql =
     (let statements = split_statements sql in
      if statements = [] then Inr (conn, empty_result)
      else
        case multi_loop cursor_execute conn statements None None of
          Inl e \<Rightarrow> Inl e
        | Inr (conn', last_select_result, last_result) \<Rightarrow>
            (case (case last_select_result of Some r \<Rightarrow> Some r | None \<Rightarrow> last_result) of
               Some final_result \<Rightarrow> Inr (conn', final_result)
             | None \<Rightarrow> Inr (conn', empty_result)))"

section \<open>output.py\<close>

record 'f DataFrame =
  df_columns :: "string list"
  df_rows :: "'f pyval list list"

definition empty_frame :: "'f DataFrame" where
  "empty_frame = \<lparr>df_columns = [], df_rows = []\<rparr>"

text \<open>Building the frame from a non-empty result and \<open>convert_types_for_excel\<close> are
  done by pandas (shape check, casts to nullable integers and floats); together they
  are the parameter \<open>to_frame\<close>, which may raise.\<close>

definition format_result ::
  "('f DataFrame \<Rightarrow> exn + 'f DataFrame) \<Rightarrow> 'f ExecutionResult \<Rightarrow> exn + 'f DataFrame" where
  "format_result to_frame result =
     (if columns result = [] \<or> rows result = [] then
        (if query_type result \<in> {''INSERT'', ''UPDATE'', ''DELETE''} then
           Inr \<lparr>df_columns = [''Result''],
                df_rows = [[PStr (str_int (rowcount result) @ '' rows affected'')]]\<rparr>
         else if query_type result \<in> {''CREATE'', ''DROP''} then
           Inr \<lparr>df_columns = [''Result''], df_rows = [[PStr ''OK'']]\<rparr>
         else Inr empty_frame)
      else to_frame \<lparr>df_columns = columns result, df_rows = rows result\<rparr>)"

definition EXCEL_MAX_ROWS :: nat where "EXCEL_MAX_ROWS = 1048576"
definition EXCEL_MAX_COLS :: nat where "EXCEL_MAX_COLS = 16384"
definition RECOMMENDED_MAX_ROWS :: nat where "RECOMMENDED_MAX_ROWS = 100000"

definition check_output_limits :: "'f ExecutionResult \<Rightarrow> string option" where
  "check_output_limits result =
     (let row_count = length (rows result); col_count = length (columns result) in
      if row_count > EXCEL_MAX_ROWS then
        Some (''Result has '' @ fmt_commas row_count @ '' rows, exceeding Excel's limit of ''
              @ fmt_commas EXCEL_MAX_ROWS @ ''. Use LIMIT clause to reduce output.'')
      else if col_count > EXCEL_MAX_COLS then
        Some (''Result has '' @ fmt_commas col_count @ '' columns, exceeding Excel's limit of ''
              @ fmt_commas EXCEL_MAX_COLS @ ''.'')
      else if row_count > RECOMMENDED_MAX_ROWS then
        Some (''Warning: Result has '' @ fmt_commas row_count @ '' rows. Large outputs may ''
              @ ''impact Excel performance. Consider using LIMIT clause.'')
      else None)"

section \<open>parser.py\<close>

record TableReference =
  original :: string
  sheet_name :: "string option"
  table_name :: "string option"
  range_ref :: "string option"
  sqlite_name :: string

subsection \<open>Parameter counting\<close>

fun count_loop :: "bool \<Rightarrow> char option \<Rightarrow> nat \<Rightarrow> string \<Rightarrow> nat" where
  "count_loop in_string string_char count [] = count"
| "count_loop in_string string_char count (c # cs) =
     (if (c = CHR 0x27 \<or> c = CHR 0x22) \<and> \<not> in_string then
        count_loop True (Some c) count cs
      else if Some c = string_char \<and> in_string then
        (case cs of
           d # ds \<Rightarrow>
             if Some d = string_char then count_loop in_string string_char count ds
             else count_loop False None count cs
         | [] \<Rightarrow> count_loop False None count cs)
      else if c = CHR ''?'' \<and> \<not> in_string then
        count_loop in_string string_char (count + 1) cs
      else count_loop in_string string_char count cs)"

definition count_parameters :: "string \<Rightarrow> nat" where
  "count_parameters query = count_loop False None 0 query"

definition is_parameterized_query :: "string \<Rightarrow> bool" where
  "is_parameterized_query query = (count_parameters query > 0)"

subsection \<open>Removing string literals and comments\<close>

text \<open>The inner \<open>while j < len(query)\<close> of \<open>_remove_string_literals\<close>: the offset,
  in the text after the opening quote, of the first quote that is not followed by
  another quote.\<close>

fun find_closing :: "string \<Rightarrow> nat \<Rightarrow> nat option" where
  "find_closing [] j = None"
| "find_closing (c # cs) j =
     (if c = CHR 0x27 \<and> (cs = [] \<or> hd cs \<noteq> CHR 0x27) then Some j
      else find_closing cs (Suc j))"

definition blank_or :: "char option \<Rightarrow> char \<Rightarrow> char" where
  "blank_or string_char c = (if string_char = Some (CHR 0x22) then c else CHR '' '')"

function remove_loop :: "bool \<Rightarrow> char option \<Rightarrow> string \<Rightarrow> string" where
  "remove_loop in_string string_char [] = []"
| "remove_loop in_string string_char (c # cs) =
     (if (c = CHR 0x27 \<or> c = CHR 0x22) \<and> \<not> in_string then
        (if c = CHR 0x27 then
           (case find_closing cs 0 of
              Some j \<Rightarrow>
                if j + 1 < length cs \<and> (cs ! (j + 1) = CHR ''.'' \<or> cs ! (j + 1) = CHR ''!'')
                then c # take (j + 2) cs @ remove_loop in_string string_char (drop (j + 2) cs)
                else CHR '' '' # remove_loop True (Some c) cs
            | None \<Rightarrow> CHR '' '' # remove_loop True (Some c) cs)
         else c # remove_loop True (Some c) cs)
      else if Some c = string_char \<and> in_string then
        (case cs of
           d # ds \<Rightarrow>
             if Some d = string_char
             then blank_or string_char c # blank_or string_char c
                    # remove_loop in_string string_char ds
             else blank_or string_char c # remove_loop False None cs
         | [] \<Rightarrow> blank_or string_char c # remove_loop False None cs)
      else if in_string then blank_or string_char c # remove_loop in_string string_char cs
      else c # remove_loop in_string string_char cs)"
  by pat_completeness auto
termination
  by (relation "measure (\<lambda>(in_string, string_char, s). length s)") auto

definition remove_string_literals :: "string \<Rightarrow> string" where
  "remove_string_literals query = remove_loop False None query"

text \<open>\<open>re.sub(r'--[^\n]*', ' ', query)\<close>.\<close>

function strip_line_comments :: "string \<Rightarrow> string" where
  "strip_line_comments [] = []"
| "strip_line_comments (c # cs) =
     (if c = CHR ''-'' \<and> prefix ''-'' cs
      then CHR '' '' # strip_line_comments (dropWhile (\<lambda>d. d \<noteq> CHR 0x0A) (tl cs))
      else c # strip_line_comments cs)"
  by pat_completeness auto
termination
proof (relation "measure length")
  show "wf (measure length)" by simp
next
  fix c :: char and cs :: string
  assume "c = CHR ''-'' \<and> prefix ''-'' cs"
  have "length (dropWhile (\<lambda>d. d \<noteq> CHR 0x0A) (tl cs)) \<le> length (tl cs)"
    by (rule length_dropWhile_le)
  then show "(dropWhile (\<lambda>d. d \<noteq> CHR 0x0A) (tl cs), c # cs) \<in> measure length"
    by simp
next
  fix c :: char and cs :: string
  show "(cs, c # cs) \<in> measure length" by simp
qed

lemma find_sub_length:
  "find_sub sub pre s = Some (x, after) \<Longrightarrow> length after \<le> length s"
  by (induction sub pre s rule: find_sub.induct) (auto split: if_splits)

text \<open>\<open>re.sub(r'/\*.*?\*/', ' ', query, flags=re.DOTALL)\<close>: the comment ends at the
  first \<open>*/\<close> after its \<open>/*\<close>; an unclosed \<open>/*\<close> is left in place.\<close>

function strip_block_comments :: "string \<Rightarrow> string" where
  "strip_block_comments [] = []"
| "strip_block_comments (c # cs) =
     (if c = CHR ''/'' \<and> prefix ''*'' cs then
        (case find_sub ''*/'' [] (tl cs) of
           Some (inside, after) \<Rightarrow> CHR '' '' # strip_block_comments after
         | None \<Rightarrow> c # strip_block_comments cs)
      else c # strip_block_comments cs)"
  by pat_completeness auto
termination
  by (relation "measure length") (auto dest: find_sub_length intro: le_imp_less_Suc)

definition remove_comments :: "string \<Rightarrow> string" where
  "remove_comments query = strip_block_comments (strip_line_comments query)"

subsection \<open>Regular-expression scans\<close>

text \<open>
  \<open>\b\<close> before a keyword: the keyword begins with a word character, so the position is a
  word boundary exactly when it is the start of the text or follows a non-word
  character.  \<open>kw_at kw s\<close>: the upper-case keyword \<open>kw\<close> matches at the head of \<open>s\<close>
  under \<open>re.IGNORECASE\<close>.
\<close>

fun word_start :: "char option \<Rightarrow> bool" where
  "word_start None = True"
| "word_start (Some p) = (\<not> is_word_char p)"

definition kw_at :: "string \<Rightarrow> string \<Rightarrow> bool" where
  "kw_at kw s = (length kw \<le> length s \<and> str_upper (take (length kw) s) = kw)"

definition spaces_then :: "string \<Rightarrow> string option" where
  "spaces_then s =
     (case s of [] \<Rightarrow> None | c # cs \<Rightarrow> if isspace c then Some (dropWhile isspace s) else None)"

lemma spaces_then_length: "spaces_then s = Some r \<Longrightarrow> length r < length s"
proof -
  assume a: "spaces_then s = Some r"
  then obtain c cs where s: "s = c # cs" and c: "isspace c" and r: "r = dropWhile isspace s"
    by (auto simp: spaces_then_def split: list.splits if_splits)
  have "length (dropWhile isspace cs) \<le> length cs" by (rule length_dropWhile_le)
  with s c r show ?thesis by simp
qed

text \<open>
  \<open>re.finditer(r'\b(?:FROM|JOIN)\s+', cleaned_query, re.IGNORECASE)\<close>: for every match,
  from the left and without overlap, the text of \<open>cleaned_query\<close> from \<open>match.end()\<close>
  on.  \<open>prev\<close> is the character before the current position (after a match, a
  whitespace character).
\<close>

function from_join_matches :: "char option \<Rightarrow> string \<Rightarrow> string list" where
  "from_join_matches prev [] = []"
| "from_join_matches prev (c # cs) =
     (case (if word_start prev \<and> (kw_at ''FROM'' (c # cs) \<or> kw_at ''JOIN'' (c # cs))
            then spaces_then (drop 4 (c # cs)) else None) of
        Some rest \<Rightarrow> rest # from_join_matches (Some (CHR '' '')) rest
      | None \<Rightarrow> from_join_matches (Some c) cs)"
  by pat_completeness auto
termination
  by (relation "measure (\<lambda>(prev, s). length s)")
     (auto dest!: spaces_then_length split: if_splits)

text \<open>
  \<open>re.finditer(r'\bUPDATE\s+([^\s,;]+)', ...)\<close> and
  \<open>re.finditer(r'\bINSERT\s+INTO\s+([^\s,;(]+)', ...)\<close>: the texts of group 1 of the
  matches.  After a match the scan goes on behind the token.
\<close>

definition update_token_char :: "char \<Rightarrow> bool" where
  "update_token_char c = (\<not> isspace c \<and> c \<noteq> CHR '','' \<and> c \<noteq> CHR '';'')"

definition insert_token_char :: "char \<Rightarrow> bool" where
  "insert_token_char c = (\<not> isspace c \<and> c \<noteq> CHR '','' \<and> c \<noteq> CHR '';'' \<and> c \<noteq> CHR ''('')"

definition update_head :: "string \<Rightarrow> string option" where
  "update_head s = (if kw_at ''UPDATE'' s then spaces_then (drop 6 s) else None)"

definition insert_head :: "string \<Rightarrow> string option" where
  "insert_head s =
     (if kw_at ''INSERT'' s then
        (case spaces_then (drop 6 s) of
           Some r \<Rightarrow> if kw_at ''INTO'' r then spaces_then (drop 4 r) else None
         | None \<Rightarrow> None)
      else None)"

lemma update_head_length: "update_head s = Some r \<Longrightarrow> length r < length s"
  by (auto simp: update_head_def split: if_splits dest!: spaces_then_length)

lemma insert_head_length: "insert_head s = Some r \<Longrightarrow> length r < length s"
  by (auto simp: insert_head_def split: if_splits option.splits dest!: spaces_then_length)

function update_matches :: "char option \<Rightarrow> string \<Rightarrow> string list" where
  "update_matches prev [] = []"
| "update_matches prev (c # cs) =
     (case (if word_start prev then update_head (c # cs) else None) of
        Some rest \<Rightarrow>
          (let tok = takeWhile update_token_char rest in
           if tok \<noteq> [] then tok # update_matches (Some (last tok)) (dropWhile update_token_char rest)
           else update_matches (Some c) cs)
      | None \<Rightarrow> update_matches (Some c) cs)"
  by pat_completeness auto
termination
proof (relation "measure (\<lambda>(prev, s). length s)")
  show "wf (measure (\<lambda>(prev, s). length s))" by simp
next
  fix prev :: "char option" and c :: char and cs rest tok :: string
  assume "(if word_start prev then update_head (c # cs) else None) = Some rest"
  then have "length rest < length (c # cs)"
    by (auto split: if_splits dest: update_head_length)
  moreover have "length (dropWhile update_token_char rest) \<le> length rest"
    by (rule length_dropWhile_le)
  ultimately show "((Some (last tok), dropWhile update_token_char rest), prev, c # cs)
      \<in> measure (\<lambda>(prev, s). length s)"
    by simp
qed simp_all

function insert_matches :: "char option \<Rightarrow> string \<Rightarrow> string list" where
  "insert_matches prev [] = []"
| "insert_matches prev (c # cs) =
     (case (if word_start prev then insert_head (c # cs) else None) of
        Some rest \<Rightarrow>
          (let tok = takeWhile insert_token_char rest in
           if tok \<noteq> [] then tok # insert_matches (Some (last tok)) (dropWhile insert_token_char rest)
           else insert_matches (Some c) cs)
      | None \<Rightarrow> insert_matches (Some c) cs)"
  by pat_completeness auto
termination
proof (relation "measure (\<lambda>(prev, s). length s)")
  show "wf (measure (\<lambda>(prev, s). length s))" by simp
next
  fix prev :: "char option" and c :: char and cs rest tok :: string
  assume "(if word_start prev then insert_head (c # cs) else None) = Some rest"
  then have "length rest < length (c # cs)"
    by (auto split: if_splits dest: insert_head_length)
  moreover have "length (dropWhile insert_token_char rest) \<le> length rest"
    by (rule length_dropWhile_le)
  ultimately show "((Some (last tok), dropWhile insert_token_char rest), prev, c # cs)
      \<in> measure (\<lambda>(prev, s). length s)"
    by simp
qed simp_all

subsection \<open>Extracting one reference\<close>

text \<open>The quoted branches of \<open>_extract_identifier\<close>: \<open>acc\<close> is the text read so far,
  beginning with the opening quote \<open>q\<close>; a doubled quote does not close.\<close>

fun scan_quoted :: "char \<Rightarrow> string \<Rightarrow> string \<Rightarrow> string option" where
  "scan_quoted q acc [] = None"
| "scan_quoted q acc (c # cs) =
     (if c = q then
        (case cs of
           d # ds \<Rightarrow> if d = q then scan_quoted q (acc @ [c, d]) ds else Some (acc @ [c])
         | [] \<Rightarrow> Some (acc @ [c]))
      else scan_quoted q (acc @ [c]) cs)"

definition ident_char :: "char \<Rightarrow> bool" where
  "ident_char c = (isalnum c \<or> c = CHR ''_'' \<or> c = CHR ''$'' \<or> c = CHR '':'')"

text \<open>\<open>_extract_identifier(query, start_pos)\<close> as a function of \<open>query[start_pos:]\<close>.\<close>

definition extract_identifier :: "string \<Rightarrow> string option" where
  "extract_identifier s =
     (case s of
        [] \<Rightarrow> None
      | c # cs \<Rightarrow>
          if c = CHR 0x22 then scan_quoted (CHR 0x22) [c] cs
          else if c = CHR 0x27 then scan_quoted (CHR 0x27) [c] cs
          else
            let ident = takeWhile ident_char s in
            if ident \<noteq> [] then Some ident else None)"

text \<open>\<open>_extract_reference_at_position(query, start_pos)\<close> as a function of
  \<open>query[start_pos:]\<close> (the function never looks before \<open>start_pos\<close>).\<close>

definition is_separator :: "char \<Rightarrow> bool" where
  "is_separator c = (c = CHR ''.'' \<or> c = CHR ''!'')"

definition extract_reference_at_position :: "string \<Rightarrow> string option" where
  "extract_reference_at_position text =
     (case dropWhile isspace text of
        [] \<Rightarrow> None
      | c # cs \<Rightarrow>
          if c = CHR 0x27 then
            (case find_sub [CHR 0x27] [] cs of
               None \<Rightarrow> None
             | Some (inner, after) \<Rightarrow>
                 (case after of
                    [] \<Rightarrow> None
                  | n # rest_text \<Rightarrow>
                      if is_separator n then
                        (case extract_identifier rest_text of
                           Some rest \<Rightarrow> Some (c # inner @ [CHR 0x27] @ [n] @ rest)
                         | None \<Rightarrow> None)
                      else None))
          else
            (case extract_identifier (c # cs) of
               None \<Rightarrow> None
             | Some identifier \<Rightarrow>
                 (case drop (length identifier) (c # cs) of
                    [] \<Rightarrow> Some identifier
                  | n # behind \<Rightarrow>
                      if is_separator n then
                        (let rest_text = dropWhile isspace behind;
                             rest =
                               (if prefix [CHR 0x27] rest_text then
                                  (case find_sub [CHR 0x27] [] (tl rest_text) of
                                     Some (inner, after) \<Rightarrow> Some (CHR 0x27 # inner @ [CHR 0x27])
                                   | None \<Rightarrow> extract_identifier rest_text)
                                else extract_identifier rest_text)
                         in case rest of
                              Some r \<Rightarrow> Some (identifier @ [n] @ r)
                            | None \<Rightarrow> Some identifier)
                      else Some identifier)))"

subsection \<open>Parsing a reference\<close>

text \<open>
  The patterns of \<open>parse_reference\<close>.  \<open>eat_cell\<close> reads \<open>\$?[A-Z]+\$?\d+\<close> (under
  \<open>re.IGNORECASE\<close>) at the head of a text and gives what follows; the character classes
  are disjoint, so the greedy reading is the only one.  \<open>$\<close> matches at the end of the
  text and before a final newline.
\<close>

fun opt_dollar :: "string \<Rightarrow> string" where
  "opt_dollar [] = []"
| "opt_dollar (c # cs) = (if c = CHR ''$'' then cs else c # cs)"

definition eat_cell :: "string \<Rightarrow> string option" where
  "eat_cell s =
     (let s1 = opt_dollar s;
          s2 = opt_dollar (dropWhile isalpha s1)
      in if takeWhile isalpha s1 \<noteq> [] \<and> takeWhile isdigit s2 \<noteq> []
         then Some (dropWhile isdigit s2) else None)"

definition eat_range :: "string \<Rightarrow> string option" where
  "eat_range s =
     (case eat_cell s of
        Some (c # r) \<Rightarrow> if c = CHR '':'' then eat_cell r else None
      | _ \<Rightarrow> None)"

definition at_end :: "string \<Rightarrow> bool" where
  "at_end s = (s = [] \<or> s = [CHR 0x0A])"

text \<open>The range pattern followed by \<open>$\<close>: the text matched by the range.\<close>

definition range_match :: "string \<Rightarrow> string option" where
  "range_match s =
     (case eat_range s of
        Some r \<Rightarrow> if at_end r then Some (take (length s - length r) s) else None
      | None \<Rightarrow> None)"

text \<open>\<open>(.+)$\<close> without \<open>re.DOTALL\<close>.\<close>

definition dot_plus_end :: "string \<Rightarrow> string option" where
  "dot_plus_end s =
     (let t = takeWhile (\<lambda>c. c \<noteq> CHR 0x0A) s in
      if t \<noteq> [] \<and> at_end (drop (length t) s) then Some t else None)"

text \<open>\<open>(?:'([^']+)'|([^X]+))X\<close> followed by \<open>tail\<close>, for the separator \<open>X\<close>: the
  value of \<open>match.group(1) or match.group(2)\<close> and the result of \<open>tail\<close>.\<close>

definition sheet_then ::
  "char \<Rightarrow> (string \<Rightarrow> string option) \<Rightarrow> string \<Rightarrow> (string \<times> string) option" where
  "sheet_then x tail ref =
     (let quoted =
            (case ref of
               [] \<Rightarrow> None
             | c # cs \<Rightarrow>
                 if c = CHR 0x27 then
                   (let sheet = takeWhile (\<lambda>d. d \<noteq> CHR 0x27) cs;
                        after = dropWhile (\<lambda>d. d \<noteq> CHR 0x27) cs
                    in if sheet \<noteq> [] \<and> prefix [CHR 0x27, x] after then
                         (case tail (drop 2 after) of Some t \<Rightarrow> Some (sheet, t) | None \<Rightarrow> None)
                       else None)
                 else None)
      in case quoted of
           Some r \<Rightarrow> Some r
         | None \<Rightarrow>
             (let sheet = takeWhile (\<lambda>d. d \<noteq> x) ref;
                  after = dropWhile (\<lambda>d. d \<noteq> x) ref
              in if sheet \<noteq> [] \<and> after \<noteq> [] then
                   (case tail (tl after) of Some t \<Rightarrow> Some (sheet, t) | None \<Rightarrow> None)
                 else None))"

definition cross_sheet_range_match :: "string \<Rightarrow> (string \<times> string) option" where
  "cross_sheet_range_match ref = sheet_then (CHR ''!'') range_match ref"

definition sheet_table_match :: "string \<Rightarrow> (string \<times> string) option" where
  "sheet_table_match ref = sheet_then (CHR ''.'') dot_plus_end ref"

text \<open>\<open>re.sub(r'[^a-zA-Z0-9_]+', '_', s)\<close>: every maximal run of characters outside
  \<open>keep\<close> becomes one underscore; \<open>in_run\<close> tells that such a run is being read.\<close>

fun collapse_runs :: "(char \<Rightarrow> bool) \<Rightarrow> bool \<Rightarrow> string \<Rightarrow> string" where
  "collapse_runs keep in_run [] = []"
| "collapse_runs keep in_run (c # cs) =
     (if keep c then c # collapse_runs keep False cs
      else if in_run then collapse_runs keep True cs
      else CHR ''_'' # collapse_runs keep True cs)"

fun join_underscore :: "string list \<Rightarrow> string" where
  "join_underscore [] = []"
| "join_underscore [p] = p"
| "join_underscore (p # ps) = p @ CHR ''_'' # join_underscore ps"

definition generate_sqlite_name ::
  "string option \<Rightarrow> string option \<Rightarrow> string option \<Rightarrow> string" where
  "generate_sqlite_name sheet table rng =
     (let parts =
            (if truthy sheet
             then [strip_char (CHR ''_'') (collapse_runs is_word_char False (str_lower (the sheet)))]
             else [])
            @ (if truthy table
               then [strip_char (CHR ''_'') (collapse_runs is_word_char False (str_lower (the table)))]
               else [])
            @ (if truthy rng
               then [strip_char (CHR ''_'') (collapse_runs isalnum False (str_lower (the rng)))]
               else []);
          name = join_underscore parts;
          name = (if name \<noteq> [] \<and> isdigit (hd name) then ''r_'' @ name else name)
      in if name = [] then ''table_ref'' else name)"

definition unquote_name :: "string \<Rightarrow> string" where
  "unquote_name table =
     (if table \<noteq> [] \<and> hd table = CHR 0x22 \<and> last table = CHR 0x22
      then unescape_dquotes (butlast (tl table)) else table)"

text \<open>\<open>parse_reference\<close>; \<open>None\<close> stands for the \<open>ValueError\<close>.\<close>

definition parse_reference :: "string \<Rightarrow> TableReference option" where
  "parse_reference ref0 =
     (if ref0 = [] \<or> str_strip ref0 = [] then None
      else
        let ref = str_strip ref0 in
        case cross_sheet_range_match ref of
          Some (sheet, rng) \<Rightarrow>
            Some \<lparr>original = ref, sheet_name = Some sheet, table_name = None,
                  range_ref = Some (str_upper rng),
                  sqlite_name = generate_sqlite_name (Some sheet) None (Some (str_upper rng))\<rparr>
        | None \<Rightarrow>
            (case range_match ref of
               Some m \<Rightarrow>
                 Some \<lparr>original = ref, sheet_name = None, table_name = None,
                       range_ref = Some (str_upper ref),
                       sqlite_name = generate_sqlite_name None None (Some (str_upper ref))\<rparr>
             | None \<Rightarrow>
                 (case sheet_table_match ref of
                    Some (sheet, t) \<Rightarrow>
                      Some \<lparr>original = ref, sheet_name = Some sheet,
                            table_name = Some (unquote_name t), range_ref = None,
                            sqlite_name = generate_sqlite_name (Some sheet) (Some (unquote_name t)) None\<rparr>
                  | None \<Rightarrow>
                      Some \<lparr>original = ref, sheet_name = None,
                            table_name = Some (unquote_name ref), range_ref = None,
                            sqlite_name = generate_sqlite_name None (Some (unquote_name ref)) None\<rparr>)))"

subsection \<open>Extracting all references\<close>

text \<open>The body shared by the three loops of \<open>extract_table_references\<close>: a candidate
  text is parsed and kept when it is non-empty and was not seen before.\<close>

fun add_references ::
  "string option list \<Rightarrow> TableReference list \<times> string set \<Rightarrow> TableReference list \<times> string set" where
  "add_references [] (references, seen) = (references, seen)"
| "add_references (None # ts) (references, seen) = add_references ts (references, seen)"
| "add_references (Some ref_text # ts) (references, seen) =
     (if ref_text \<noteq> [] \<and> ref_text \<notin> seen then
        (case parse_reference ref_text of
           Some ref \<Rightarrow> add_references ts (references @ [ref], insert ref_text seen)
         | None \<Rightarrow> add_references ts (references, seen))
      else add_references ts (references, seen))"

definition extract_table_references :: "string \<Rightarrow> TableReference list" where
  "extract_table_references query =
     (let cleaned_query = remove_comments (remove_string_literals query);
          st = add_references
                 (map extract_reference_at_position (from_join_matches None cleaned_query))
                 ([], {});
          st = add_references (map (\<lambda>g. Some (str_strip g)) (update_matches None cleaned_query)) st;
          st = add_references (map (\<lambda>g. Some (str_strip g)) (insert_matches None cleaned_query)) st
      in fst st)"

subsection \<open>Rewriting the query\<close>

text \<open>
  \<open>re.sub(pattern, sqlite_name, result, flags=re.IGNORECASE)\<close> where \<open>pattern\<close> is
  \<open>re.escape(original_ref)\<close>, between two \<open>\b\<close> when \<open>word_bounds\<close> is set.
  \<open>boundary a b\<close> is \<open>\b\<close> between the neighbouring characters \<open>a\<close> and \<open>b\<close>
  (\<open>None\<close> at either end of the text).  \<open>repl\<close> gives the text put in place of a
  match, from the matched text.
\<close>

fun is_word_opt :: "char option \<Rightarrow> bool" where
  "is_word_opt None = False"
| "is_word_opt (Some c) = is_word_char c"

definition boundary :: "char option \<Rightarrow> char option \<Rightarrow> bool" where
  "boundary a b = (is_word_opt a \<noteq> is_word_opt b)"

fun head_opt :: "string \<Rightarrow> char option" where
  "head_opt [] = None"
| "head_opt (c # cs) = Some c"

definition match_here :: "string \<Rightarrow> bool \<Rightarrow> char option \<Rightarrow> string \<Rightarrow> bool" where
  "match_here key word_bounds prev s =
     (length key \<le> length s \<and> str_lower (take (length key) s) = str_lower key \<and>
      (word_bounds \<longrightarrow>
         boundary prev (head_opt s) \<and>
         boundary (if key = [] then prev else Some (last (take (length key) s)))
                  (head_opt (drop (length key) s))))"

function sub_scan ::
  "string \<Rightarrow> (string \<Rightarrow> string) \<Rightarrow> bool \<Rightarrow> char option \<Rightarrow> string \<Rightarrow> string" where
  "sub_scan key repl word_bounds prev s =
     (if key \<noteq> [] \<and> match_here key word_bounds prev s then
        repl (take (length key) s)
        @ sub_scan key repl word_bounds (Some (last (take (length key) s))) (drop (length key) s)
      else
        (if key = [] \<and> match_here key word_bounds prev s then repl [] else [])
        @ (case s of [] \<Rightarrow> [] | c # cs \<Rightarrow> c # sub_scan key repl word_bounds (Some c) cs))"
  by pat_completeness auto
termination
  by (relation "measure (\<lambda>(key, repl, word_bounds, prev, s). length s)")
     (auto simp: match_here_def intro!: diff_less)

declare sub_scan.simps [simp del]

text \<open>
  The replacement argument of \<open>re.sub\<close> is a template.  A template without a backslash
  is taken as it is.  One with a backslash is handed to the template compiler of the
  \<open>re\<close> library (\<open>compile_template\<close>, a parameter here), which raises \<open>re.error\<close> on a
  bad escape or an invalid group reference, and otherwise gives the expansion of the
  template for a matched text (the patterns built below have no group).  The template
  is compiled before the text is searched, so a bad template raises even where nothing
  matches.
\<close>

definition make_filter ::
  "(string \<Rightarrow> exn + (string \<Rightarrow> string)) \<Rightarrow> string \<Rightarrow> exn + (string \<Rightarrow> string)" where
  "make_filter compile_template repl =
     (if CHR 0x5C \<in> set repl then compile_template repl else Inr (\<lambda>matched. repl))"

definition re_sub ::
  "(string \<Rightarrow> exn + (string \<Rightarrow> string)) \<Rightarrow> string \<Rightarrow> bool \<Rightarrow> string \<Rightarrow> string
     \<Rightarrow> exn + string" where
  "re_sub compile_template key word_bounds repl s =
     (case make_filter compile_template repl of
        Inl e \<Rightarrow> Inl e
      | Inr expand \<Rightarrow> Inr (sub_scan key expand word_bounds None s))"

text \<open>The \<open>for original_ref in sorted_refs\<close> loop of \<open>substitute_references\<close>.\<close>

fun substitute_loop ::
  "(string \<Rightarrow> exn + (string \<Rightarrow> string)) \<Rightarrow> (string \<times> string) list \<Rightarrow> string list
     \<Rightarrow> string \<Rightarrow> exn + string" where
  "substitute_loop compile_template mapping [] result = Inr result"
| "substitute_loop compile_template mapping (original_ref # sorted_refs) result =
     (case re_sub compile_template original_ref (CHR 0x27 \<notin> set original_ref)
             (the (map_of mapping original_ref)) result of
        Inl e \<Rightarrow> Inl e
      | Inr result' \<Rightarrow> substitute_loop compile_template mapping sorted_refs result')"

text \<open>\<open>substitute_references\<close>; the mapping is a dictionary in insertion order, and
  \<open>sorted(..., key=len, reverse=True)\<close> keeps keys of equal length in that order.\<close>

definition substitute_references ::
  "(string \<Rightarrow> exn + (string \<Rightarrow> string)) \<Rightarrow> string \<Rightarrow> (string \<times> string) list
     \<Rightarrow> exn + string" where
  "substitute_references compile_template query mapping =
     (if mapping = [] then Inr query
      else
        substitute_loop compile_template mapping
          (sort_key (\<lambda>k. - int (length k)) (map fst mapping)) query)"

section \<open>schema.py: building a table schema\<close>

definition reserved :: "string list" where
  "reserved =
     [''select'', ''from'', ''where'', ''and'', ''or'', ''not'', ''null'', ''true'', ''false'',
      ''insert'', ''update'', ''delete'', ''create'', ''drop'', ''table'', ''index'',
      ''order'', ''by'', ''group'', ''having'', ''join'', ''left'', ''right'', ''inner'',
      ''outer'', ''on'', ''as'', ''in'', ''between'', ''like'', ''is'', ''case'', ''when'',
      ''then'', ''else'', ''end'', ''distinct'', ''limit'', ''offset'', ''union'', ''all'']"

text \<open>\<open>re.match(r'^[a-zA-Z_][a-zA-Z0-9_]*$', name)\<close>.\<close>

definition is_plain_identifier :: "string \<Rightarrow> bool" where
  "is_plain_identifier name =
     (case name of
        [] \<Rightarrow> False
      | c # cs \<Rightarrow> (isalpha c \<or> c = CHR ''_'') \<and> at_end (dropWhile is_word_char cs))"

definition escape_dquotes :: "string \<Rightarrow> string" where
  "escape_dquotes name = concat (map (\<lambda>c. if c = CHR 0x22 then [c, c] else [c]) name)"

definition sanitize_column_name :: "string \<Rightarrow> string" where
  "sanitize_column_name name =
     (if is_plain_identifier name \<and> str_lower name \<notin> set reserved then name
      else CHR 0x22 # escape_dquotes name @ [CHR 0x22])"

record ColumnSchema =
  col_name :: string
  col_sqlite_name :: string
  col_sqlite_type :: string
  nullable :: bool

record TableSchema =
  schema_name :: string
  schema_sqlite_name :: string
  schema_columns :: "ColumnSchema list"
  row_count :: nat

section \<open>main.py\<close>

text \<open>
  What one invocation needs from outside the package: the spreadsheet host behind
  \<open>resolve_reference\<close>, pandas, the \<open>sqlite3\<close> engine, and the template compiler
  of the \<open>re\<close> library.  Each operation that can raise returns \<open>exn + _\<close>.
  \<open>infer_column_types\<close> is the dictionary from column label to inferred type;
  \<open>column_labels\<close> is \<open>df.columns.tolist()\<close>.
\<close>

record ('db, 'df, 'f) host =
  create_connection :: "exn + 'db"
  resolve_reference :: "TableReference \<Rightarrow> exn + 'df"
  column_labels :: "'df \<Rightarrow> header list"
  frame_length :: "'df \<Rightarrow> nat"
  infer_column_types :: "'df \<Rightarrow> exn + (header \<rightharpoonup> string)"
  load_data_to_sqlite :: "'db \<Rightarrow> TableSchema \<Rightarrow> 'df \<Rightarrow> exn + 'db"
  cursor_execute :: "('db, 'f) engine"
  to_frame :: "'f DataFrame \<Rightarrow> exn + 'f DataFrame"
  compile_template :: "string \<Rightarrow> exn + (string \<Rightarrow> string)"

text \<open>The loop of \<open>build_table_schema\<close>: \<open>types[col_name]\<close> raises \<open>KeyError\<close> when the
  validated name is not a column label.\<close>

fun build_columns :: "(header \<rightharpoonup> string) \<Rightarrow> string list \<Rightarrow> exn + ColumnSchema list" where
  "build_columns types [] = Inr []"
| "build_columns types (c # cs) =
     (case types (HStr c) of
        None \<Rightarrow> Inl (OtherException ([CHR 0x27] @ c @ [CHR 0x27]))
      | Some t \<Rightarrow>
          (case build_columns types cs of
             Inl e \<Rightarrow> Inl e
           | Inr cols \<Rightarrow>
               Inr (\<lparr>col_name = c, col_sqlite_name = sanitize_column_name c,
                     col_sqlite_type = t, nullable = True\<rparr> # cols)))"

definition build_table_schema ::
  "('db, 'df, 'f) host \<Rightarrow> 'df \<Rightarrow> string \<Rightarrow> exn + TableSchema" where
  "build_table_schema h df tbl_name =
     (case validate_headers (column_labels h df) of
        Inl e \<Rightarrow> Inl (Excel e)
      | Inr validated_headers \<Rightarrow>
          (case infer_column_types h df of
             Inl e \<Rightarrow> Inl e
           | Inr types \<Rightarrow>
               (case build_columns types validated_headers of
                  Inl e \<Rightarrow> Inl e
                | Inr cols \<Rightarrow>
                    Inr \<lparr>schema_name = tbl_name,
                         schema_sqlite_name = sanitize_column_name tbl_name,
                         schema_columns = cols,
                         row_count = frame_length h df\<rparr>)))"

text \<open>The \<open>for ref in references\<close> loop of \<open>_execute_sqlite\<close>; \<open>ref_mapping\<close> is a
  dictionary in insertion order.\<close>

fun load_references ::
  "('db, 'df, 'f) host \<Rightarrow> 'db \<Rightarrow> TableReference list \<Rightarrow> (string \<times> string) list
     \<Rightarrow> exn + ('db \<times> (string \<times> string) list)" where
  "load_references h conn [] ref_mapping = Inr (conn, ref_mapping)"
| "load_references h conn (ref # refs) ref_mapping =
     (case resolve_reference h ref of
        Inl e \<Rightarrow> Inl e
      | Inr df \<Rightarrow>
          (case build_table_schema h df (sqlite_name ref) of
             Inl e \<Rightarrow> Inl e
           | Inr schema \<Rightarrow>
               (case load_data_to_sqlite h conn schema df of
                  Inl e \<Rightarrow> Inl e
                | Inr conn' \<Rightarrow>
                    load_references h conn' refs
                      (AList.update (original ref) (sqlite_name ref) ref_mapping))))"

text \<open>\<open>_execute_sqlite\<close> up to and including the execution of the rewritten query
  (the connection is closed afterwards on every path and is not returned).\<close>

definition run_query ::
  "('db, 'df, 'f) host \<Rightarrow> string \<Rightarrow> 'f pyval list \<Rightarrow> exn + 'f ExecutionResult" where
  "run_query h query params =
     (if query = [] \<or> str_strip query = [] then
        Inl (Excel (QuerySyntaxError None (Some ''empty query'')))
      else if params \<noteq> [] \<and> length params \<noteq> count_parameters query then
        Inl (Excel (QuerySyntaxError None
               (Some (''expected '' @ str_nat (count_parameters query) @ '' parameters, got ''
                      @ str_nat (length params)))))
      else
        let references = extract_table_references query in
        case create_connection h of
          Inl e \<Rightarrow> Inl e
        | Inr conn \<Rightarrow>
            (case load_references h conn references [] of
               Inl e \<Rightarrow> Inl e
             | Inr (conn', ref_mapping) \<Rightarrow>
                 (case substitute_references (compile_template h) query ref_mapping of
                    Inl e \<Rightarrow> Inl e
                  | Inr rewritten_query \<Rightarrow>
                      (case (if CHR '';'' \<in> set query
                             then execute_multiple_statements (cursor_execute h) conn'
                                    rewritten_query
                             else execute_query (cursor_execute h) conn' rewritten_query
                                    params) of
                         Inl e \<Rightarrow> Inl e
                       | Inr (conn'', result) \<Rightarrow> Inr result))))"

text \<open>The rest of \<open>_execute_sqlite\<close>: the output limits and the shaping.\<close>

definition execute_sqlite ::
  "('db, 'df, 'f) host \<Rightarrow> string \<Rightarrow> 'f pyval list \<Rightarrow> exn + 'f DataFrame" where
  "execute_sqlite h query params =
     (case run_query h query params of
        Inl e \<Rightarrow> Inl e
      | Inr result \<Rightarrow>
          (case check_output_limits result of
             Some warning \<Rightarrow>
               if warning \<noteq> [] \<and> str_contains ''exceeding'' warning
               then Inl (Excel (SQLiteExcelError warning))
               else format_result (to_frame h) result
           | None \<Rightarrow> format_result (to_frame h) result))"

text \<open>
  What \<open>SQLITE\<close> returns: a frame, or a string.  The two handlers of \<open>SQLITE\<close> are
  \<open>except SQLiteExcelError\<close> and \<open>except Exception\<close>; an exception outside the
  \<open>Exception\<close> hierarchy passes both and leaves the function.
\<close>

datatype 'f returned = Frame "'f DataFrame" | Text string

definition SQLITE ::
  "('db, 'df, 'f) host \<Rightarrow> string \<Rightarrow> 'f pyval list \<Rightarrow> exn + 'f returned" where
  "SQLITE h query params =
     (case execute_sqlite h query params of
        Inr df \<Rightarrow> Inr (Frame df)
      | Inl (Excel e) \<Rightarrow> Inr (Text (str_error e))
      | Inl (BaseException m) \<Rightarrow> Inl (BaseException m)
      | Inl e \<Rightarrow> Inr (Text (format_error_for_excel e)))"

section \<open>A host outside the spreadsheet\<close>

text \<open>
  A concrete host for evaluating the pipeline: no spreadsheet is attached, so
  \<open>resolve_reference\<close> raises the \<open>RangeResolutionError\<close> of its \<open>ImportError\<close> branch, and
  the engine behaves as \<open>sqlite3\<close> does on binding: a statement run with a number of
  parameters other than its number of placeholders raises \<open>ProgrammingError\<close>;
  otherwise the cursor holds \<open>n\<close> rows of one column.  Its template compiler takes
  no template at all (it is called for a replacement text with a backslash only).
\<close>

definition binding_engine :: "nat \<Rightarrow> (unit, unit) engine" where
  "binding_engine n conn sql params =
     (if length params \<noteq> count_parameters sql then
        Inl (ProgrammingError
               (''Incorrect number of bindings supplied. The current statement uses ''
                @ str_nat (count_parameters sql) @ '', and there are ''
                @ str_nat (length params) @ '' supplied.''))
      else
        Inr (conn, \<lparr>description = Some [''c''], fetchall = replicate n [PInt 1],
                    cur_rowcount = - 1, cur_lastrowid = Some 0\<rparr>))"

definition offline_host :: "nat \<Rightarrow> (unit, unit, unit) host" where
  "offline_host n =
     \<lparr>create_connection = Inr (),
      resolve_reference =
        (\<lambda>ref. Inl (Excel (RangeResolutionError (original ref)
           (Some ''xl() function not available - must run in Python in Excel environment'')))),
      column_labels = (\<lambda>df. []),
      frame_length = (\<lambda>df. 0),
      infer_column_types = (\<lambda>df. Inr Map.empty),
      load_data_to_sqlite = (\<lambda>conn schema df. Inr conn),
      cursor_execute = binding_engine n,
      to_frame = Inr,
      compile_template = (\<lambda>template. Inl (OtherException ''bad escape''))\<rparr>"

text \<open>The same host with an engine that raises \<open>e\<close> on every statement.\<close>

definition failing_host :: "exn \<Rightarrow> (unit, unit, unit) host" where
  "failing_host e = (offline_host 0)\<lparr>cursor_execute := (\<lambda>conn sql params. Inl e)\<rparr>"

section \<open>Notions of the specification\<close>

text \<open>
  Header validation is specified on the entries as they are compared: stringified and
  trimmed (\<open>normalized\<close>), and lower-cased for the duplicate test (\<open>fold_key\<close>).  An
  entry is empty when it is \<open>None\<close> or when nothing is left after trimming.
\<close>

definition normalized :: "header \<Rightarrow> string" where
  "normalized h = str_strip (py_str h)"

definition empty_header :: "header \<Rightarrow> bool" where
  "empty_header h = (h = HNone \<or> normalized h = [])"

definition fold_key :: "header \<Rightarrow> string" where
  "fold_key h = str_lower (normalized h)"

definition valid_headers :: "header list \<Rightarrow> bool" where
  "valid_headers hs = ((\<forall>h \<in> set hs. \<not> empty_header h) \<and> distinct (map fold_key hs))"

text \<open>
  \<open>first_violation seen i rest e k\<close>: among the entries \<open>rest\<close>, read after entries whose
  keys are the domain of \<open>seen\<close> and whose number is \<open>i\<close>, the entry at index \<open>k\<close> is the
  first one that is empty or repeats an earlier key, and \<open>e\<close> is the error reporting it.
\<close>

definition first_violation ::
  "(string \<rightharpoonup> string) \<Rightarrow> nat \<Rightarrow> header list \<Rightarrow> excel_error \<Rightarrow> nat \<Rightarrow> bool" where
  "first_violation seen i rest e k =
     (k < length rest \<and>
      (\<forall>j < k. \<not> empty_header (rest ! j)) \<and> distinct (map fold_key (take k rest)) \<and>
      (\<forall>j < k. seen (fold_key (rest ! j)) = None) \<and>
      (if empty_header (rest ! k) then e = EmptyColumnNameError (Some (i + k + 1))
       else (seen (fold_key (rest ! k)) \<noteq> None \<or>
             fold_key (rest ! k) \<in> set (map fold_key (take k rest))) \<and>
            e = DuplicateColumnError (normalized (rest ! k))))"

text \<open>
  Query-type detection as the specification words it: the first word of the trimmed,
  upper-cased statement decides; after \<open>WITH\<close> the statement kind is the first of
  \<open>SELECT\<close>, \<open>INSERT\<close>, \<open>UPDATE\<close>, \<open>DELETE\<close> that occurs in the statement.
\<close>

definition statement_kinds :: "string list" where
  "statement_kinds =
     [''SELECT'', ''INSERT'', ''UPDATE'', ''DELETE'', ''CREATE'', ''DROP'', ''PRAGMA'', ''EXPLAIN'']"

definition first_word :: "string \<Rightarrow> string" where
  "first_word s = takeWhile (\<lambda>c. \<not> isspace c) s"

fun first_occurring :: "string list \<Rightarrow> string \<Rightarrow> string option" where
  "first_occurring kws [] = None"
| "first_occurring kws (c # cs) =
     (case find (\<lambda>kw. prefix kw (c # cs)) kws of
        Some kw \<Rightarrow> Some kw
      | None \<Rightarrow> first_occurring kws cs)"

definition spec_query_type :: "string \<Rightarrow> string" where
  "spec_query_type query =
     (let s = str_upper (str_strip query); w = first_word s in
      if w = ''WITH'' then
        (case first_occurring [''SELECT'', ''INSERT'', ''UPDATE'', ''DELETE''] s of
           Some kw \<Rightarrow> kw
         | None \<Rightarrow> ''OTHER'')
      else if w \<in> set statement_kinds then w
      else ''OTHER'')"

text \<open>
  String literals as the specification means them: a literal opens at a quote and closes
  at the next quote of the same kind that is not doubled.  \<open>semicolon_outside quote s\<close>
  tells whether \<open>s\<close>, read in the state \<open>quote\<close> (the open quote, if any), has a \<open>;\<close>
  outside literals; \<open>literal_mask inside s\<close> marks the characters of \<open>s\<close> that belong to
  a single-quoted literal, its quotes included.
\<close>

fun semicolon_outside :: "char option \<Rightarrow> string \<Rightarrow> bool" where
  "semicolon_outside quote [] = False"
| "semicolon_outside None (c # cs) =
     (if c = CHR 0x27 \<or> c = CHR 0x22 then semicolon_outside (Some c) cs
      else c = CHR '';'' \<or> semicolon_outside None cs)"
| "semicolon_outside (Some q) (c # cs) =
     (if c = q then
        (case cs of
           d # ds \<Rightarrow> if d = q then semicolon_outside (Some q) ds else semicolon_outside None cs
         | [] \<Rightarrow> False)
      else semicolon_outside (Some q) cs)"

fun literal_mask :: "bool \<Rightarrow> string \<Rightarrow> bool list" where
  "literal_mask inside [] = []"
| "literal_mask False (c # cs) =
     (if c = CHR 0x27 then True # literal_mask True cs else False # literal_mask False cs)"
| "literal_mask True (c # cs) =
     (if c = CHR 0x27 then
        (case cs of
           d # ds \<Rightarrow>
             if d = CHR 0x27 then True # True # literal_mask True ds
             else True # literal_mask False cs
         | [] \<Rightarrow> [True])
      else True # literal_mask True cs)"

text \<open>A text is \<open>trimmed\<close> when it is not empty and neither begins nor ends with
  whitespace.  \<open>refs_inv\<close> is the invariant of the reference loops: the originals
  collected so far are pairwise distinct and all in \<open>seen\<close>.\<close>

definition trimmed :: "string \<Rightarrow> bool" where
  "trimmed t = (t \<noteq> [] \<and> \<not> isspace (hd t) \<and> \<not> isspace (last t))"

definition refs_inv :: "TableReference list \<times> string set \<Rightarrow> bool" where
  "refs_inv st = (distinct (map original (fst st)) \<and> set (map original (fst st)) \<subseteq> snd st)"










text \<open>The text of the warning that \<open>check_output_limits\<close> gives for a result over a hard
  limit.\<close>

definition limit_text :: "'f ExecutionResult \<Rightarrow> string" where
  "limit_text r =
     (if length (rows r) > 1048576 then
        ''Result has '' @ fmt_commas (length (rows r))
          @ '' rows, exceeding Excel's limit of 1,048,576. Use LIMIT clause to reduce output.''
      else
        ''Result has '' @ fmt_commas (length (columns r))
          @ '' columns, exceeding Excel's limit of 16,384.'')"

section \<open>The output shaper on empty results\<close>

text \<open>
  C10.  A row-producing result (\<open>SELECT\<close>, \<open>PRAGMA\<close> or \<open>EXPLAIN\<close>) that has column
  names but no rows is shaped into the completely empty frame: the column names are
  dropped and the frame has no columns and no rows.
\<close>

theorem format_result_zero_rows:
  assumes "query_type r \<in> {''SELECT'', ''PRAGMA'', ''EXPLAIN''}"
    and "columns r \<noteq> []" and "rows r = []"
  shows "format_result tf r = Inr \<lparr>df_columns = [], df_rows = []\<rparr>"
  using assms by (auto simp: format_result_def empty_frame_def)

theorem format_result_zero_rows_witness:
  "format_result Inr \<lparr>columns = [''id'', ''name''], rows = [], rowcount = 0, lastrowid = None,
      query_type = ''SELECT''\<rparr> = (Inr \<lparr>df_columns = [], df_rows = []\<rparr> :: exn + unit DataFrame)"
  using format_result_zero_rows [of "\<lparr>columns = [''id'', ''name''], rows = [], rowcount = 0,
      lastrowid = None, query_type = ''SELECT''\<rparr> :: unit ExecutionResult" Inr]
  by simp

section \<open>Header validation\<close>

lemma validate_step:
  "validate_headers_loop i (h # rest) validated seen =
     (if empty_header h then Inl (EmptyColumnNameError (Some (i + 1)))
      else if seen (fold_key h) \<noteq> None then Inl (DuplicateColumnError (normalized h))
      else validate_headers_loop (i + 1) rest (validated @ [normalized h])
             (seen(fold_key h \<mapsto> normalized h)))"
  by (cases h) (auto simp: empty_header_def normalized_def fold_key_def Let_def)

declare validate_headers_loop.simps(2) [simp del]

lemma validate_loop_accepts:
  "validate_headers_loop i rest validated seen = Inr v \<longleftrightarrow>
     (\<forall>h \<in> set rest. \<not> empty_header h) \<and> distinct (map fold_key rest) \<and>
     (\<forall>h \<in> set rest. seen (fold_key h) = None) \<and> v = validated @ map normalized rest"
proof (induction rest arbitrary: i validated seen)
  case Nil
  have "(Inr validated = (Inr v :: excel_error + string list)) = (v = validated)" by blast
  then show ?case by simp
next
  case (Cons h rest)
  have "(\<forall>ha \<in> set rest. (seen(fold_key h \<mapsto> normalized h)) (fold_key ha) = None) \<longleftrightarrow>
        fold_key h \<notin> set (map fold_key rest) \<and> (\<forall>ha \<in> set rest. seen (fold_key ha) = None)"
    by (auto simp: image_iff)
  then show ?case
    unfolding validate_step
    by (simp add: Cons.IH) blast
qed

lemma first_violation_0:
  "empty_header h \<Longrightarrow> first_violation seen i (h # rest) (EmptyColumnNameError (Some (i + 1))) 0"
  "\<not> empty_header h \<Longrightarrow> seen (fold_key h) \<noteq> None \<Longrightarrow>
     first_violation seen i (h # rest) (DuplicateColumnError (normalized h)) 0"
  by (simp_all add: first_violation_def)

lemma first_violation_Suc:
  assumes "\<not> empty_header h" "seen (fold_key h) = None"
    and "first_violation (seen(fold_key h \<mapsto> normalized h)) (i + 1) rest e k"
  shows "first_violation seen i (h # rest) e (Suc k)"
proof -
  from assms(3) have k: "k < length rest"
      "\<forall>j < k. \<not> empty_header (rest ! j)" "distinct (map fold_key (take k rest))"
      "\<forall>j < k. (seen(fold_key h \<mapsto> normalized h)) (fold_key (rest ! j)) = None"
    by (simp_all add: first_violation_def)
  have k4: "\<And>j. j < k \<Longrightarrow> fold_key (rest ! j) \<noteq> fold_key h \<and> seen (fold_key (rest ! j)) = None"
    using k(4) by (metis fun_upd_apply option.distinct(1))
  have notin: "fold_key h \<notin> set (map fold_key (take k rest))"
  proof
    assume "fold_key h \<in> set (map fold_key (take k rest))"
    then obtain j where "j < k" "fold_key (rest ! j) = fold_key h"
      using k(1) by (auto simp: in_set_conv_nth)
    with k4 show False by blast
  qed
  have last: "if empty_header (rest ! k) then e = EmptyColumnNameError (Some (i + Suc k + 1))
       else (seen (fold_key (rest ! k)) \<noteq> None \<or>
             fold_key (rest ! k) \<in> set (map fold_key (take (Suc k) (h # rest)))) \<and>
            e = DuplicateColumnError (normalized (rest ! k))"
  proof (cases "empty_header (rest ! k)")
    case True
    with assms(3) show ?thesis by (simp add: first_violation_def)
  next
    case False
    with assms(3) have d: "(seen(fold_key h \<mapsto> normalized h)) (fold_key (rest ! k)) \<noteq> None \<or>
             fold_key (rest ! k) \<in> set (map fold_key (take k rest))"
      and e: "e = DuplicateColumnError (normalized (rest ! k))"
      by (simp_all add: first_violation_def)
    from d have "seen (fold_key (rest ! k)) \<noteq> None \<or> fold_key (rest ! k) = fold_key h \<or>
             fold_key (rest ! k) \<in> set (map fold_key (take k rest))"
      by (metis fun_upd_apply)
    with False e show ?thesis by auto
  qed
  have a: "\<forall>j < Suc k. \<not> empty_header ((h # rest) ! j)"
    using k(2) assms(1) by (simp add: nth_Cons split: nat.splits)
  have b: "\<forall>j < Suc k. seen (fold_key ((h # rest) ! j)) = None"
    using k4 assms(2) by (simp add: nth_Cons split: nat.splits)
  have c: "distinct (map fold_key (take (Suc k) (h # rest)))"
    using k(3) notin by simp
  have d: "Suc k < length (h # rest)" using k(1) by simp
  have e: "(h # rest) ! Suc k = rest ! k" by simp
  show ?thesis
    unfolding first_violation_def e using a b c d last by blast
qed

lemma validate_loop_rejects:
  "validate_headers_loop i rest validated seen = Inl e \<Longrightarrow> \<exists>k. first_violation seen i rest e k"
proof (induction rest arbitrary: i validated seen)
  case Nil
  then show ?case by simp
next
  case (Cons h rest)
  consider (empty) "empty_header h" | (dup) "\<not> empty_header h" "seen (fold_key h) \<noteq> None"
    | (ok) "\<not> empty_header h" "seen (fold_key h) = None"
    by blast
  then show ?case
  proof cases
    case empty
    with Cons.prems have "e = EmptyColumnNameError (Some (i + 1))"
      by (simp add: validate_step)
    with first_violation_0(1) [of h seen i rest] empty show ?thesis by blast
  next
    case dup
    with Cons.prems have "e = DuplicateColumnError (normalized h)"
      by (simp add: validate_step)
    with first_violation_0(2) [of h seen i rest] dup show ?thesis by blast
  next
    case ok
    with Cons.prems have
      "validate_headers_loop (i + 1) rest (validated @ [normalized h])
         (seen(fold_key h \<mapsto> normalized h)) = Inl e"
      by (simp add: validate_step)
    from Cons.IH [OF this] obtain k where
      "first_violation (seen(fold_key h \<mapsto> normalized h)) (i + 1) rest e k" ..
    from first_violation_Suc [OF ok this] show ?thesis ..
  qed
qed

text \<open>
  C7.  \<open>validate_headers\<close> accepts a header list exactly when no entry is empty after
  trimming and no two entries (stringified and trimmed) are equal up to case; it then
  returns the trimmed names.  When it rejects, the error reports the first violating
  entry: at its index \<open>i\<close> the entries before are valid, and the error is
  \<open>EmptyColumnNameError\<close> with the 1-based position \<open>i + 1\<close> if that entry is empty, and
  otherwise \<open>DuplicateColumnError\<close> with the trimmed name of that entry in its own
  casing, which repeats an earlier entry.
\<close>

theorem validate_headers_accepts_iff:
  "((\<exists>v. validate_headers hs = Inr v) \<longleftrightarrow> valid_headers hs) \<and>
   (valid_headers hs \<longrightarrow> validate_headers hs = Inr (map normalized hs)) \<and>
   (\<forall>e. validate_headers hs = Inl e \<longrightarrow>
      (\<exists>i < length hs.
         valid_headers (take i hs) \<and>
         (if empty_header (hs ! i) then e = EmptyColumnNameError (Some (i + 1))
          else fold_key (hs ! i) \<in> set (map fold_key (take i hs)) \<and>
               e = DuplicateColumnError (normalized (hs ! i)))))"
proof (intro conjI allI impI)
  show "(\<exists>v. validate_headers hs = Inr v) \<longleftrightarrow> valid_headers hs"
    by (simp add: validate_headers_def validate_loop_accepts valid_headers_def)
  show "validate_headers hs = Inr (map normalized hs)" if "valid_headers hs"
    using that by (simp add: validate_headers_def validate_loop_accepts valid_headers_def)
  show "\<exists>i < length hs.
         valid_headers (take i hs) \<and>
         (if empty_header (hs ! i) then e = EmptyColumnNameError (Some (i + 1))
          else fold_key (hs ! i) \<in> set (map fold_key (take i hs)) \<and>
               e = DuplicateColumnError (normalized (hs ! i)))"
    if "validate_headers hs = Inl e" for e
  proof -
    from that have "validate_headers_loop 0 hs [] Map.empty = Inl e"
      by (simp add: validate_headers_def)
    from validate_loop_rejects [OF this] obtain k where fv: "first_violation Map.empty 0 hs e k" ..
    then have k: "k < length hs" "\<forall>j < k. \<not> empty_header (hs ! j)"
      "distinct (map fold_key (take k hs))"
      by (simp_all add: first_violation_def)
    have "\<forall>h \<in> set (take k hs). \<not> empty_header h"
    proof
      fix h assume "h \<in> set (take k hs)"
      then obtain j where "j < k" "h = hs ! j"
        using k(1) by (auto simp: in_set_conv_nth)
      with k(2) show "\<not> empty_header h" by simp
    qed
    with k(3) have v: "valid_headers (take k hs)"
      by (simp add: valid_headers_def)
    have "if empty_header (hs ! k) then e = EmptyColumnNameError (Some (k + 1))
          else fold_key (hs ! k) \<in> set (map fold_key (take k hs)) \<and>
               e = DuplicateColumnError (normalized (hs ! k))"
    proof (cases "empty_header (hs ! k)")
      case True
      with fv show ?thesis by (simp add: first_violation_def)
    next
      case False
      with fv show ?thesis by (simp add: first_violation_def)
    qed
    with k(1) v show ?thesis by blast
  qed
qed

theorem validate_headers_witness:
  "valid_headers [HStr ''id'', HStr '' Name ''] \<and>
   validate_headers [HStr ''id'', HStr '' Name ''] = Inr [''id'', ''Name''] \<and>
   validate_headers [HStr ''id'', HStr ''Name'', HStr ''NAME''] = Inl (DuplicateColumnError ''NAME'') \<and>
   \<not> valid_headers [HStr ''id'', HStr ''Name'', HStr ''NAME'']"
proof -
  have v: "valid_headers [HStr ''id'', HStr '' Name '']" by code_simp
  have n: "map normalized [HStr ''id'', HStr '' Name ''] = [''id'', ''Name'']" by code_simp
  have r: "validate_headers [HStr ''id'', HStr ''Name'', HStr ''NAME''] = Inl (DuplicateColumnError ''NAME'')"
    by code_simp
  from validate_headers_accepts_iff [of "[HStr ''id'', HStr '' Name '']"] v n
  have a: "validate_headers [HStr ''id'', HStr '' Name ''] = Inr [''id'', ''Name'']" by simp
  from validate_headers_accepts_iff [of "[HStr ''id'', HStr ''Name'', HStr ''NAME'']"] r
  have "\<not> valid_headers [HStr ''id'', HStr ''Name'', HStr ''NAME'']" by auto
  with v a r show ?thesis by blast
qed

section \<open>Query-type detection\<close>

lemma first_word_prefix: "prefix (first_word s) s"
  by (simp add: first_word_def takeWhile_is_prefix)

lemma find_kind:
  "k \<in> set statement_kinds \<Longrightarrow>
   find (\<lambda>kw. prefix kw (k @ r))
     [''SELECT'', ''INSERT'', ''UPDATE'', ''DELETE'', ''CREATE'', ''DROP'', ''PRAGMA'', ''EXPLAIN'']
     = Some k \<and> \<not> prefix ''WITH'' (k @ r)"
  unfolding statement_kinds_def
  by (elim disjE | simp)+

lemma detect_keyword:
  assumes "k \<in> set statement_kinds" "prefix k (str_upper (str_strip q))"
  shows "detect_query_type q = k"
proof -
  from assms(2) obtain r where r: "str_upper (str_strip q) = k @ r" by (auto simp: prefix_def)
  from find_kind [OF assms(1), of r] show ?thesis
    unfolding detect_query_type_def Let_def startswith_def r by simp
qed

text \<open>
  C8 (amended).  On the trimmed, upper-cased statement: when the first word is \<open>WITH\<close>,
  \<open>detect_query_type\<close> returns \<open>SELECT\<close> if \<open>SELECT\<close> occurs anywhere in the
  statement and \<open>OTHER\<close> if it does not (\<open>INSERT\<close>, \<open>UPDATE\<close> and \<open>DELETE\<close> are not
  looked for); when the first word is one of the eight recognized kinds it returns that
  word; when the statement begins with neither \<open>WITH\<close> nor a recognized kind it returns
  \<open>OTHER\<close>.
\<close>

theorem detect_query_type_by_first_word:
  "(first_word (str_upper (str_strip q)) = ''WITH'' \<longrightarrow>
      detect_query_type q =
        (if str_contains ''SELECT'' (str_upper (str_strip q)) then ''SELECT'' else ''OTHER'')) \<and>
   (first_word (str_upper (str_strip q)) \<in> set statement_kinds \<longrightarrow>
      detect_query_type q = first_word (str_upper (str_strip q))) \<and>
   (\<not> startswith (str_upper (str_strip q)) ''WITH'' \<and>
    (\<forall>k \<in> set statement_kinds. \<not> startswith (str_upper (str_strip q)) k) \<longrightarrow>
      detect_query_type q = ''OTHER'')"
proof (intro conjI impI)
  assume "first_word (str_upper (str_strip q)) = ''WITH''"
  with first_word_prefix [of "str_upper (str_strip q)"]
  have "startswith (str_upper (str_strip q)) ''WITH''" by (simp add: startswith_def)
  then show "detect_query_type q =
        (if str_contains ''SELECT'' (str_upper (str_strip q)) then ''SELECT'' else ''OTHER'')"
    by (simp add: detect_query_type_def Let_def)
next
  assume "first_word (str_upper (str_strip q)) \<in> set statement_kinds"
  then show "detect_query_type q = first_word (str_upper (str_strip q))"
    using detect_keyword [OF _ first_word_prefix] by blast
next
  assume "\<not> startswith (str_upper (str_strip q)) ''WITH'' \<and>
    (\<forall>k \<in> set statement_kinds. \<not> startswith (str_upper (str_strip q)) k)"
  then show "detect_query_type q = ''OTHER''"
    by (simp add: detect_query_type_def Let_def statement_kinds_def)
qed

theorem detect_query_type_witness:
  "detect_query_type ''WITH c AS (SELECT 1) SELECT * FROM c'' = ''SELECT'' \<and>
   detect_query_type ''WITH c(a) AS (VALUES (1)) DELETE FROM t'' = ''OTHER'' \<and>
   detect_query_type '' update t set a = 1'' = ''UPDATE'' \<and>
   detect_query_type ''VACUUM'' = ''OTHER''"
proof -
  have w1: "first_word (str_upper (str_strip ''WITH c AS (SELECT 1) SELECT * FROM c'')) = ''WITH''"
    by code_simp
  have c1: "str_contains ''SELECT'' (str_upper (str_strip ''WITH c AS (SELECT 1) SELECT * FROM c''))"
    by code_simp
  have w2: "first_word (str_upper (str_strip ''WITH c(a) AS (VALUES (1)) DELETE FROM t'')) = ''WITH''"
    by code_simp
  have c2: "\<not> str_contains ''SELECT'' (str_upper (str_strip ''WITH c(a) AS (VALUES (1)) DELETE FROM t''))"
    by code_simp
  have w3: "first_word (str_upper (str_strip '' update t set a = 1'')) = ''UPDATE''"
    by code_simp
  have k3: "''UPDATE'' \<in> set statement_kinds" by (simp add: statement_kinds_def)
  have w4: "\<not> startswith (str_upper (str_strip ''VACUUM'')) ''WITH'' \<and>
    (\<forall>k \<in> set statement_kinds. \<not> startswith (str_upper (str_strip ''VACUUM'')) k)"
    by code_simp
  from detect_query_type_by_first_word [of "''WITH c AS (SELECT 1) SELECT * FROM c''"] w1 c1
  have a: "detect_query_type ''WITH c AS (SELECT 1) SELECT * FROM c'' = ''SELECT''" by simp
  from detect_query_type_by_first_word [of "''WITH c(a) AS (VALUES (1)) DELETE FROM t''"] w2 c2
  have b: "detect_query_type ''WITH c(a) AS (VALUES (1)) DELETE FROM t'' = ''OTHER''" by simp
  from detect_query_type_by_first_word [of "'' update t set a = 1''"] w3 k3
  have c: "detect_query_type '' update t set a = 1'' = ''UPDATE''" by simp
  from detect_query_type_by_first_word [of "''VACUUM''"] w4
  have d: "detect_query_type ''VACUUM'' = ''OTHER''" by blast
  from a b c d show ?thesis by blast
qed

text \<open>
  C8 as stated fails: for a statement whose first word is \<open>WITH\<close> and whose first
  statement keyword is \<open>DELETE\<close>, the specified kind is \<open>DELETE\<close> and the code returns
  \<open>OTHER\<close>.
\<close>

theorem detect_query_type_with_delete_counterexample:
  "first_word (str_upper (str_strip ''WITH c(a) AS (VALUES (1)) DELETE FROM t'')) = ''WITH'' \<and>
   spec_query_type ''WITH c(a) AS (VALUES (1)) DELETE FROM t'' = ''DELETE'' \<and>
   detect_query_type ''WITH c(a) AS (VALUES (1)) DELETE FROM t'' = ''OTHER''"
  by code_simp

section \<open>Parameter count\<close>

lemma str_strip_Nil: "str_strip [] = []"
  by (simp add: str_strip_def lstrip_def rstrip_def)

lemma SQLITE_Excel:
  "execute_sqlite h query params = Inl (Excel e) \<Longrightarrow>
     SQLITE h query params = Inr (Text (str_error e))"
  by (simp add: SQLITE_def)

lemma SQLITE_Inl:
  "execute_sqlite h query params = Inl e \<Longrightarrow> (\<forall>m. e \<noteq> BaseException m) \<Longrightarrow>
     SQLITE h query params = Inr (Text (format_error_for_excel e))"
  by (cases e) (simp_all add: SQLITE_def)

lemma run_query_Inl:
  "run_query h query params = Inl e \<Longrightarrow> execute_sqlite h query params = Inl e"
  by (simp add: execute_sqlite_def)

text \<open>
  C2 (amended).  For a query that is not blank and a non-empty parameter tuple whose
  length differs from the number of placeholders counted in the query, the invocation
  fails with the \<open>QuerySyntaxError\<close> whose detail is \<open>expected N parameters, got M\<close>, and
  \<open>SQLITE\<close> returns that text behind \<open>Error: \<close>.  (With an empty tuple the count is not
  checked.)
\<close>

theorem parameter_count_mismatch:
  assumes "str_strip query \<noteq> []" and "params \<noteq> []"
    and "length params \<noteq> count_parameters query"
  shows "run_query h query params =
           Inl (Excel (QuerySyntaxError None
             (Some (''expected '' @ str_nat (count_parameters query) @ '' parameters, got ''
                    @ str_nat (length params))))) \<and>
         SQLITE h query params =
           Inr (Text (''Error: expected '' @ str_nat (count_parameters query) @ '' parameters, got ''
                      @ str_nat (length params)))"
proof -
  from assms(1) have q: "query \<noteq> []" using str_strip_Nil by auto
  from q assms have r: "run_query h query params =
           Inl (Excel (QuerySyntaxError None
             (Some (''expected '' @ str_nat (count_parameters query) @ '' parameters, got ''
                    @ str_nat (length params)))))"
    by (simp add: run_query_def)
  from SQLITE_Excel [OF run_query_Inl [OF r]] r show ?thesis
    by (simp add: str_error_def)
qed

theorem parameter_count_mismatch_witness:
  "SQLITE (offline_host 1) ''SELECT ?'' [PInt 1, PInt 2] =
     Inr (Text ''Error: expected 1 parameters, got 2'')"
proof -
  have a: "str_strip ''SELECT ?'' \<noteq> []" by code_simp
  have b: "count_parameters ''SELECT ?'' = 1" by code_simp
  have c: "str_nat (Suc 0) = ''1''" "str_nat (Suc (Suc 0)) = ''2''" by code_simp+
  from parameter_count_mismatch [of "''SELECT ?''" "[PInt 1, PInt 2]" "offline_host 1"] a b c
  show ?thesis by simp
qed

lemma run_query_offline_plain:
  assumes "str_strip query \<noteq> []" "extract_table_references query = []"
    "CHR '';'' \<notin> set query" "params = [] \<or> length params = count_parameters query"
  shows "run_query (offline_host n) query params =
     (case execute_query (binding_engine n) () query params of
        Inl e \<Rightarrow> Inl e | Inr (conn, result) \<Rightarrow> Inr result)"
proof -
  from assms(1) have q: "query \<noteq> []" using str_strip_Nil by auto
  from q assms show ?thesis
    by (auto simp: run_query_def offline_host_def substitute_references_def split: sum.splits)
qed

text \<open>
  C2 as stated fails for zero parameters: the query \<open>SELECT ?\<close> has one placeholder, no
  parameter is supplied, and the invocation gets as far as the engine, whose binding
  error is what \<open>SQLITE\<close> returns.
\<close>

theorem zero_params_counterexample:
  "count_parameters ''SELECT ?'' = 1 \<and>
   SQLITE (offline_host 1) ''SELECT ?'' [] =
     Inr (Text ''Error: programming error: Incorrect number of bindings supplied. The current statement uses 1, and there are 0 supplied.'')"
proof -
  have a: "str_strip ''SELECT ?'' \<noteq> []" by code_simp
  have b: "count_parameters ''SELECT ?'' = 1" by code_simp
  have c: "extract_table_references ''SELECT ?'' = []" by code_simp
  have d: "str_nat (Suc 0) = ''1''" "str_nat 0 = ''0''" by code_simp+
  have e: "run_query (offline_host 1) ''SELECT ?'' ([] :: unit pyval list) =
      Inl (ProgrammingError ''Incorrect number of bindings supplied. The current statement uses 1, and there are 0 supplied.'')"
    using run_query_offline_plain [of "''SELECT ?''" "[]" 1, OF a c] b d
    by (simp add: execute_query_def binding_engine_def)
  from SQLITE_Inl [OF run_query_Inl [OF e]] b show ?thesis
    by (simp add: str_error_def)
qed


section \<open>Output limits\<close>

lemma fmt_commas_limits:
  "fmt_commas EXCEL_MAX_ROWS = ''1,048,576''" "fmt_commas EXCEL_MAX_COLS = ''16,384''"
  "fmt_commas 1048577 = ''1,048,577''"
  by (simp_all add: EXCEL_MAX_ROWS_def EXCEL_MAX_COLS_def fmt_commas.simps str_nat.simps
        digit_char_def pad3_def)

lemma contains_exceeding: "str_contains ''exceeding'' (a @ '', exceeding '' @ b)"
proof -
  have "a @ '', exceeding '' @ b = (a @ '', '') @ ''exceeding'' @ ('' '' @ b)" by simp
  then show ?thesis unfolding str_contains_def by (metis sublist_appendI)
qed

lemma check_output_limits_hard:
  assumes "length (rows r) > 1048576 \<or> length (columns r) > 16384"
  shows "check_output_limits r = Some (limit_text r) \<and> str_contains ''exceeding'' (limit_text r)
         \<and> limit_text r \<noteq> []"
proof (cases "length (rows r) > 1048576")
  case True
  have "str_contains ''exceeding'' (''Result has '' @ fmt_commas (length (rows r))
          @ '' rows, exceeding Excel's limit of 1,048,576. Use LIMIT clause to reduce output.'')"
    using contains_exceeding [of "''Result has '' @ fmt_commas (length (rows r)) @ '' rows''"
        "''Excel's limit of 1,048,576. Use LIMIT clause to reduce output.''"]
    by simp
  with True show ?thesis
    by (simp add: check_output_limits_def limit_text_def Let_def fmt_commas_limits)
       (simp add: EXCEL_MAX_ROWS_def)
next
  case False
  with assms have c: "length (columns r) > 16384" by simp
  have "str_contains ''exceeding'' (''Result has '' @ fmt_commas (length (columns r))
          @ '' columns, exceeding Excel's limit of 16,384.'')"
    using contains_exceeding [of "''Result has '' @ fmt_commas (length (columns r)) @ '' columns''"
        "''Excel's limit of 16,384.''"]
    by simp
  with False c show ?thesis
    by (simp add: check_output_limits_def limit_text_def Let_def fmt_commas_limits)
       (simp add: EXCEL_MAX_ROWS_def EXCEL_MAX_COLS_def)
qed

lemma SQLITE_over_limit:
  assumes "run_query h query params = Inr r"
    and "length (rows r) > 1048576 \<or> length (columns r) > 16384"
  shows "SQLITE h query params = Inr (Text (''Error: '' @ limit_text r))"
proof -
  from check_output_limits_hard [OF assms(2)] assms(1)
  have "execute_sqlite h query params = Inl (Excel (SQLiteExcelError (limit_text r)))"
    by (simp add: execute_sqlite_def)
  from SQLITE_Excel [OF this] show ?thesis by (simp add: str_error_def)
qed

text \<open>
  C6 (amended).  When the result of the execution has more than 1,048,576 rows or more
  than 16,384 columns, the invocation returns no frame but an error text: for the rows
  \<open>Error: Result has <n> rows, exceeding Excel's limit of 1,048,576. Use LIMIT clause to
  reduce output.\<close>, otherwise \<open>Error: Result has <n> columns, exceeding Excel's limit of
  16,384.\<close>, with \<open>n\<close> written with thousands separators.
\<close>

theorem output_limit_error_text:
  assumes "run_query h query params = Inr r"
    and "length (rows r) > 1048576 \<or> length (columns r) > 16384"
  shows "SQLITE h query params =
           Inr (Text (if length (rows r) > 1048576 then
                        ''Error: Result has '' @ fmt_commas (length (rows r))
                          @ '' rows, exceeding Excel's limit of 1,048,576. Use LIMIT clause to reduce output.''
                      else
                        ''Error: Result has '' @ fmt_commas (length (columns r))
                          @ '' columns, exceeding Excel's limit of 16,384.''))"
  using SQLITE_over_limit [OF assms] by (simp add: limit_text_def)

lemma run_query_offline_select:
  "run_query (offline_host n) ''SELECT 1'' [] =
     Inr \<lparr>columns = [''c''], rows = replicate n [PInt 1], rowcount = int n, lastrowid = None,
          query_type = ''SELECT''\<rparr>"
proof -
  have a: "str_strip ''SELECT 1'' \<noteq> []" by code_simp
  have b: "count_parameters ''SELECT 1'' = 0" by code_simp
  have c: "extract_table_references ''SELECT 1'' = []" by code_simp
  have d: "detect_query_type ''SELECT 1'' = ''SELECT''" by code_simp
  show ?thesis
    using run_query_offline_plain [of "''SELECT 1''" "[]" n, OF a c] b d
    by (simp add: execute_query_def binding_engine_def)
qed

theorem output_limit_error_text_witness:
  "SQLITE (offline_host 1048577) ''SELECT 1'' [] =
     Inr (Text ''Error: Result has 1,048,577 rows, exceeding Excel's limit of 1,048,576. Use LIMIT clause to reduce output.'')"
proof -
  note f = fmt_commas_limits(3)
  from output_limit_error_text [OF run_query_offline_select [of 1048577]] f
  show ?thesis by simp
qed

text \<open>
  C6 as stated fails in the rendering: for a result of 1,048,577 rows the returned text
  is not the text of \<open>OutputLimitError\<close>.
\<close>

theorem output_limit_text_counterexample:
  "SQLITE (offline_host 1048577) ''SELECT 1'' [] =
     Inr (Text ''Error: Result has 1,048,577 rows, exceeding Excel's limit of 1,048,576. Use LIMIT clause to reduce output.'') \<and>
   str_error (OutputLimitError 1048577 1048576) =
     ''Error: result set too large: 1048577 rows (limit: 1048576). Use LIMIT clause to reduce output.'' \<and>
   SQLITE (offline_host 1048577) ''SELECT 1'' [] \<noteq>
     (Inr (Text (str_error (OutputLimitError 1048577 1048576))) :: exn + unit returned)"
proof -
  note f = fmt_commas_limits(3)
  have g: "str_error (OutputLimitError 1048577 1048576) =
     ''Error: result set too large: 1048577 rows (limit: 1048576). Use LIMIT clause to reduce output.''"
    by (simp add: str_error_def str_int_def str_nat.simps digit_char_def)
  from SQLITE_over_limit [OF run_query_offline_select [of 1048577]] f
  have s: "SQLITE (offline_host 1048577) ''SELECT 1'' [] =
     Inr (Text ''Error: Result has 1,048,577 rows, exceeding Excel's limit of 1,048,576. Use LIMIT clause to reduce output.'')"
    by (simp add: limit_text_def)
  show ?thesis unfolding s g by simp
qed

section \<open>Single or multiple statements\<close>

lemma run_query_offline_multi:
  assumes "str_strip query \<noteq> []" "extract_table_references query = []"
    "CHR '';'' \<in> set query" "params = [] \<or> length params = count_parameters query"
  shows "run_query (offline_host n) query params =
     (case execute_multiple_statements (binding_engine n) () query of
        Inl e \<Rightarrow> Inl e | Inr (conn, result) \<Rightarrow> Inr result)"
proof -
  from assms(1) have q: "query \<noteq> []" using str_strip_Nil by auto
  from q assms show ?thesis
    by (auto simp: run_query_def offline_host_def substitute_references_def split: sum.splits)
qed

text \<open>
  Engine names are made of word characters, so none of them is a template of the
  regular-expression library, and the rewriting of the query cannot fail.
\<close>

lemma backslash_no_word: "\<not> is_word_char (CHR 0x5C)"
  by (simp add: is_word_char_def isalnum_def isalpha_def isupper_def islower_def isdigit_def)

lemma underscore_word: "is_word_char (CHR ''_'')"
  by (simp add: is_word_char_def)

lemma collapse_runs_word:
  assumes "\<And>c. keep c \<Longrightarrow> is_word_char c"
  shows "\<forall>c \<in> set (collapse_runs keep in_run s). is_word_char c"
  by (induction s arbitrary: in_run) (simp_all add: assms underscore_word)

lemma strip_char_subset: "set (strip_char x s) \<subseteq> set s"
proof
  fix c assume "c \<in> set (strip_char x s)"
  then have "c \<in> set (rev (dropWhile (\<lambda>c. c = x) (rev s)))"
    unfolding strip_char_def by (rule set_dropWhileD)
  then have "c \<in> set (dropWhile (\<lambda>c. c = x) (rev s))" by simp
  then have "c \<in> set (rev s)" by (rule set_dropWhileD)
  then show "c \<in> set s" by simp
qed

lemma name_part_word:
  assumes "\<And>c. keep c \<Longrightarrow> is_word_char c"
  shows "\<forall>c \<in> set (strip_char (CHR ''_'') (collapse_runs keep False s)). is_word_char c"
  using collapse_runs_word [OF assms, of _ False s] strip_char_subset by blast

lemma join_underscore_word:
  "\<forall>p \<in> set ps. \<forall>c \<in> set p. is_word_char c \<Longrightarrow> \<forall>c \<in> set (join_underscore ps). is_word_char c"
  by (induction ps rule: join_underscore.induct) (auto simp: underscore_word)

lemma generate_sqlite_name_word:
  "\<forall>c \<in> set (generate_sqlite_name sheet table rng). is_word_char c"
proof -
  let ?parts =
    "(if truthy sheet
      then [strip_char (CHR ''_'') (collapse_runs is_word_char False (str_lower (the sheet)))]
      else [])
     @ (if truthy table
        then [strip_char (CHR ''_'') (collapse_runs is_word_char False (str_lower (the table)))]
        else [])
     @ (if truthy rng
        then [strip_char (CHR ''_'') (collapse_runs isalnum False (str_lower (the rng)))]
        else [])"
  have al: "\<And>c. isalnum c \<Longrightarrow> is_word_char c" by (simp add: is_word_char_def)
  have "\<forall>p \<in> set ?parts. \<forall>c \<in> set p. is_word_char c"
    using name_part_word [of is_word_char] name_part_word [of isalnum, OF al] by auto
  then have j: "\<forall>c \<in> set (join_underscore ?parts). is_word_char c"
    by (rule join_underscore_word)
  have r: "\<forall>c \<in> set ''r_''. is_word_char c" "\<forall>c \<in> set ''table_ref''. is_word_char c"
    by code_simp+
  define name where "name = join_underscore ?parts"
  have g: "generate_sqlite_name sheet table rng =
             (if (if name \<noteq> [] \<and> isdigit (hd name) then ''r_'' @ name else name) = []
              then ''table_ref''
              else (if name \<noteq> [] \<and> isdigit (hd name) then ''r_'' @ name else name))"
    by (simp only: generate_sqlite_name_def name_def Let_def)
  from j have "\<forall>c \<in> set name. is_word_char c" unfolding name_def .
  with r show ?thesis unfolding g by auto
qed

lemma parse_reference_sqlite_name:
  "parse_reference t = Some r \<Longrightarrow> \<forall>c \<in> set (sqlite_name r). is_word_char c"
  unfolding parse_reference_def Let_def
  by (auto simp only: generate_sqlite_name_word TableReference.simps option.inject
        split: if_splits option.splits prod.splits)

lemma add_references_parsed:
  assumes "\<forall>r \<in> set (fst st). \<exists>t. parse_reference t = Some r"
  shows "\<forall>r \<in> set (fst (add_references ts st)). \<exists>t. parse_reference t = Some r"
  using assms
proof (induction ts arbitrary: st)
  case Nil
  then show ?case by (cases st) simp
next
  case (Cons t ts)
  obtain refs seen where st: "st = (refs, seen)" by (cases st)
  from Cons.prems st have p: "\<forall>r \<in> set (fst (refs, seen)). \<exists>t. parse_reference t = Some r"
    by simp
  note same = Cons.IH [OF p]
  show ?case
  proof (cases t)
    case None
    with same st show ?thesis by simp
  next
    case (Some ref_text)
    show ?thesis
    proof (cases "ref_text \<noteq> [] \<and> ref_text \<notin> seen")
      case False
      with same st Some show ?thesis by auto
    next
      case True
      show ?thesis
      proof (cases "parse_reference ref_text")
        case None
        with same st Some True show ?thesis by simp
      next
        case (Some r)
        with p
        have "\<forall>x \<in> set (fst (refs @ [r], insert ref_text seen)). \<exists>t. parse_reference t = Some x"
          by auto
        from Cons.IH [OF this] st \<open>t = Some ref_text\<close> True Some show ?thesis by simp
      qed
    qed
  qed
qed

lemma extracted_sqlite_names:
  "r \<in> set (extract_table_references query) \<Longrightarrow> \<forall>c \<in> set (sqlite_name r). is_word_char c"
proof -
  have "\<forall>r \<in> set (fst (([], {}) :: TableReference list \<times> string set)).
          \<exists>t. parse_reference t = Some r"
    by simp
  then have "\<forall>r \<in> set (extract_table_references query). \<exists>t. parse_reference t = Some r"
    unfolding extract_table_references_def Let_def
    by (intro add_references_parsed)
  then show "r \<in> set (extract_table_references query) \<Longrightarrow> ?thesis"
    using parse_reference_sqlite_name by blast
qed

lemma update_values: "snd ` set (AList.update k v al) \<subseteq> insert v (snd ` set al)"
  by (induction al) auto

lemma load_references_values:
  "load_references h conn refs m = Inr (conn', m') \<Longrightarrow>
     snd ` set m' \<subseteq> snd ` set m \<union> sqlite_name ` set refs"
proof (induction refs arbitrary: conn m)
  case Nil
  then show ?case by simp
next
  case (Cons ref refs)
  from Cons.prems obtain df schema conn1 where
    "load_references h conn1 refs (AList.update (original ref) (sqlite_name ref) m) = Inr (conn', m')"
    by (auto split: sum.splits)
  from Cons.IH [OF this] update_values [of "original ref" "sqlite_name ref" m]
  show ?case by auto
qed

lemma substitute_loop_plain:
  assumes "\<forall>k \<in> set ks. CHR 0x5C \<notin> set (the (map_of mapping k))"
  shows "\<exists>rewritten. substitute_loop ct mapping ks q = Inr rewritten"
  using assms by (induction ks arbitrary: q) (simp_all add: re_sub_def make_filter_def)

lemma substitute_references_plain:
  assumes "\<forall>v \<in> snd ` set mapping. CHR 0x5C \<notin> set v"
  shows "\<exists>rewritten. substitute_references ct q mapping = Inr rewritten"
proof (cases "mapping = []")
  case True
  then show ?thesis by (simp add: substitute_references_def)
next
  case False
  have "\<forall>k \<in> set (sort_key (\<lambda>k. - int (length k)) (map fst mapping)).
          CHR 0x5C \<notin> set (the (map_of mapping k))"
  proof
    fix k assume "k \<in> set (sort_key (\<lambda>k. - int (length k)) (map fst mapping))"
    then have "k \<in> fst ` set mapping" by simp
    then obtain v where v: "map_of mapping k = Some v"
      by (metis domD dom_map_of_conv_image_fst)
    then have "(k, v) \<in> set mapping" by (rule map_of_SomeD)
    then have "v \<in> snd ` set mapping" by force
    with assms have "CHR 0x5C \<notin> set v" by blast
    with v show "CHR 0x5C \<notin> set (the (map_of mapping k))" by simp
  qed
  from substitute_loop_plain [OF this] False show ?thesis
    by (simp add: substitute_references_def)
qed

lemma rewriting_succeeds:
  assumes "load_references h conn (extract_table_references query) [] = Inr (conn', ref_mapping)"
  shows "\<exists>rewritten. substitute_references ct q ref_mapping = Inr rewritten"
proof (rule substitute_references_plain, rule ballI)
  fix v assume "v \<in> snd ` set ref_mapping"
  with load_references_values [OF assms]
  obtain r where "r \<in> set (extract_table_references query)" "v = sqlite_name r" by auto
  with extracted_sqlite_names have "\<forall>c \<in> set v. is_word_char c" by blast
  with backslash_no_word show "CHR 0x5C \<notin> set v" by blast
qed

text \<open>
  C3 (amended).  Once the query has passed the checks and its references are loaded,
  the query is rewritten, which cannot fail there, and \<open>_execute_sqlite\<close> runs the
  rewritten query through multi-statement execution exactly when the original query
  contains a \<open>;\<close> anywhere, inside a string literal or not; a query without any \<open>;\<close>
  runs through single-statement execution with the supplied parameters.
\<close>

theorem dispatch_on_any_semicolon:
  assumes "str_strip query \<noteq> []" and "params = [] \<or> length params = count_parameters query"
    and "create_connection h = Inr conn"
    and "load_references h conn (extract_table_references query) [] = Inr (conn', ref_mapping)"
  shows "\<exists>rewritten_query.
     substitute_references (compile_template h) query ref_mapping = Inr rewritten_query \<and>
     run_query h query params =
     (case (if CHR '';'' \<in> set query
            then execute_multiple_statements (cursor_execute h) conn' rewritten_query
            else execute_query (cursor_execute h) conn' rewritten_query params) of
        Inl e \<Rightarrow> Inl e
      | Inr (c, result) \<Rightarrow> Inr result)"
proof -
  from assms(1) have q: "query \<noteq> []" using str_strip_Nil by auto
  from rewriting_succeeds [OF assms(4)] obtain rewritten_query where
    r: "substitute_references (compile_template h) query ref_mapping = Inr rewritten_query"
    by blast
  from q assms r have "run_query h query params =
     (case (if CHR '';'' \<in> set query
            then execute_multiple_statements (cursor_execute h) conn' rewritten_query
            else execute_query (cursor_execute h) conn' rewritten_query params) of
        Inl e \<Rightarrow> Inl e
      | Inr (c, result) \<Rightarrow> Inr result)"
    by (auto simp: run_query_def Let_def split: sum.splits)
  with r show ?thesis by blast
qed

theorem dispatch_on_any_semicolon_witness:
  "run_query (offline_host 1) ''SELECT ?'' [PInt 7] =
     Inr \<lparr>columns = [''c''], rows = [[PInt 1]], rowcount = 1, lastrowid = None,
          query_type = ''SELECT''\<rparr>"
proof -
  have a: "str_strip ''SELECT ?'' \<noteq> []" by code_simp
  have b: "count_parameters ''SELECT ?'' = 1" by code_simp
  have c: "extract_table_references ''SELECT ?'' = []" by code_simp
  have e: "detect_query_type ''SELECT ?'' = ''SELECT''" by code_simp
  have l: "load_references (offline_host 1) () (extract_table_references ''SELECT ?'') [] = Inr ((), [])"
    by (simp add: c)
  have k: "create_connection (offline_host 1) = Inr ()" by (simp add: offline_host_def)
  have p: "[PInt 7 :: unit pyval] = [] \<or> length [PInt 7 :: unit pyval] = count_parameters ''SELECT ?''"
    by (simp add: b)
  have s: "substitute_references ct ''SELECT ?'' [] = Inr ''SELECT ?''" for ct
    by (simp add: substitute_references_def)
  from dispatch_on_any_semicolon [OF a p k l] show ?thesis
    by (simp add: s b e offline_host_def execute_query_def binding_engine_def)
qed

text \<open>
  C3 as stated fails: the only \<open>;\<close> of this query lies inside a string literal, yet the
  multi-statement branch runs and the supplied parameter is not bound, so the engine
  reports a binding error; the single-statement branch with the parameter would have
  returned a row.
\<close>

theorem semicolon_in_literal_counterexample:
  "\<not> semicolon_outside None ''SELECT 'a;b', ?'' \<and>
   count_parameters ''SELECT 'a;b', ?'' = 1 \<and>
   SQLITE (offline_host 1) ''SELECT 'a;b', ?'' [PInt 7] =
     Inr (Text ''Error: programming error: Incorrect number of bindings supplied. The current statement uses 1, and there are 0 supplied.'') \<and>
   execute_query (binding_engine 1) () ''SELECT 'a;b', ?'' [PInt 7] =
     Inr ((), \<lparr>columns = [''c''], rows = [[PInt 1]], rowcount = 1, lastrowid = None,
               query_type = ''SELECT''\<rparr>)"
proof -
  have a: "str_strip ''SELECT 'a;b', ?'' = ''SELECT 'a;b', ?''" by code_simp
  have b: "count_parameters ''SELECT 'a;b', ?'' = 1" by code_simp
  have c: "extract_table_references ''SELECT 'a;b', ?'' = []" by code_simp
  have d: "split_statements ''SELECT 'a;b', ?'' = [''SELECT 'a;b', ?'']" by code_simp
  have e: "detect_query_type ''SELECT 'a;b', ?'' = ''SELECT''" by code_simp
  have f: "str_nat (Suc 0) = ''1''" "str_nat 0 = ''0''" by code_simp+
  have g: "\<not> semicolon_outside None ''SELECT 'a;b', ?''" by code_simp
  have m: "execute_multiple_statements (binding_engine 1) () ''SELECT 'a;b', ?'' =
     (Inl (ProgrammingError ''Incorrect number of bindings supplied. The current statement uses 1, and there are 0 supplied.'')
       :: exn + unit \<times> unit ExecutionResult)"
    unfolding execute_multiple_statements_def d
    by (simp add: a b e f execute_query_def binding_engine_def)
  have r: "run_query (offline_host 1) ''SELECT 'a;b', ?'' [PInt 7 :: unit pyval] =
      Inl (ProgrammingError ''Incorrect number of bindings supplied. The current statement uses 1, and there are 0 supplied.'')"
    using run_query_offline_multi [of "''SELECT 'a;b', ?''" "[PInt 7]" 1] a b c
    by (simp add: m del: One_nat_def)
  have s: "execute_query (binding_engine 1) () ''SELECT 'a;b', ?'' [PInt 7] =
     Inr ((), \<lparr>columns = [''c''], rows = [[PInt 1]], rowcount = 1, lastrowid = None,
               query_type = ''SELECT''\<rparr>)"
    by (simp add: b e execute_query_def binding_engine_def)
  from SQLITE_Inl [OF run_query_Inl [OF r]] b g s show ?thesis
    by (simp add: str_error_def)
qed

section \<open>What the entry point returns\<close>

lemma split_go_no_separator:
  "\<not> sublist sep s \<Longrightarrow> split_go sep 0 cur s = [cur @ s]"
proof (induction s arbitrary: cur)
  case Nil
  then show ?case by simp
next
  case (Cons c cs)
  from Cons.prems have p: "\<not> prefix sep (c # cs)" and "\<not> sublist sep cs"
    by (simp_all add: sublist_Cons_right)
  from Cons.IH [OF this(2), of "cur @ [c]"] p show ?case by simp
qed

lemma split_go_skip: "length xs = k \<Longrightarrow> split_go sep k cur (xs @ ys) = split_go sep 0 cur ys"
proof (induction xs arbitrary: k)
  case Nil
  then show ?case by simp
next
  case (Cons x xs)
  then obtain k' where "k = Suc k'" "length xs = k'" by auto
  with Cons.IH show ?case by simp
qed

lemma str_split_leading:
  assumes "sep \<noteq> []" and "\<not> sublist sep rest"
  shows "str_split (sep @ rest) sep = [[], rest]"
proof -
  from assms(1) obtain c cs where sep: "sep = c # cs" by (cases sep) auto
  have "split_go sep 0 [] (c # cs @ rest) = [] # split_go sep (length sep - 1) [] (cs @ rest)"
    using sep by simp
  also have "split_go sep (length sep - 1) [] (cs @ rest) = split_go sep 0 [] rest"
    using sep by (intro split_go_skip) simp
  also have "\<dots> = [rest]" using split_go_no_separator [OF assms(2), of "[]"] by simp
  finally show ?thesis using sep by (simp add: str_split_def)
qed

lemma str_split_none: "\<not> sublist sep s \<Longrightarrow> str_split s sep = [s]"
  using split_go_no_separator [of sep s "[]"] by (simp add: str_split_def)

lemma contains_leading: "str_contains a ((a @ b) @ rest)"
  unfolding str_contains_def by (metis append_Nil append_assoc sublist_appendI)

lemma normalize_no_such_table:
  assumes "\<not> sublist ''no such table:'' name"
  shows "normalize_sqlite_error (OperationalError (''no such table:'' @ name))
           = TableNotFoundError (str_strip name)"
proof -
  have "str_contains ''no such table'' ((''no such table'' @ '':'') @ name)"
    by (rule contains_leading)
  then have c: "str_contains ''no such table'' (''no such table:'' @ name)" by simp
  have s: "str_split (''no such table:'' @ name) ''no such table:'' = [[], name]"
    using assms by (intro str_split_leading) simp_all
  show ?thesis
    by (simp only: normalize_sqlite_error.simps Let_def s c) simp
qed

lemma normalize_no_such_column:
  assumes "\<not> sublist ''no such table:'' (''no such column:'' @ name)"
    and "\<not> sublist ''no such column:'' name"
  shows "normalize_sqlite_error (OperationalError (''no such column:'' @ name))
           = ColumnNotFoundError (str_strip name)"
proof -
  have "str_contains ''no such column'' ((''no such column'' @ '':'') @ name)"
    by (rule contains_leading)
  then have c: "str_contains ''no such column'' (''no such column:'' @ name)" by simp
  have s: "str_split (''no such column:'' @ name) ''no such column:'' = [[], name]"
    using assms(2) by (intro str_split_leading) simp_all
  have t: "str_split (''no such column:'' @ name) ''no such table:'' = [''no such column:'' @ name]"
    using assms(1) by (rule str_split_none)
  show ?thesis
    by (simp only: normalize_sqlite_error.simps Let_def s t c) simp
qed

lemma normalize_other_operational:
  assumes "\<not> sublist ''no such table:'' m" and "\<not> sublist ''no such column:'' m"
  shows "message (normalize_sqlite_error (OperationalError m)) = m"
proof -
  note t = str_split_none [OF assms(1)] and c = str_split_none [OF assms(2)]
  have e: "m \<noteq> []" if "str_contains ''syntax error'' (str_lower m)"
  proof
    assume "m = []"
    with that show False by (simp add: str_contains_def str_lower_def)
  qed
  show ?thesis
  proof (cases "str_contains ''syntax error'' (str_lower m)")
    case True
    with e have "m \<noteq> []" by blast
    with True show ?thesis
      by (simp only: normalize_sqlite_error.simps Let_def t c) simp
  next
    case False
    then show ?thesis
      by (simp only: normalize_sqlite_error.simps Let_def t c) simp
  qed
qed

lemma starts_with_Error:
  "(\<forall>m. e \<noteq> BaseException m) \<Longrightarrow> \<exists>body. format_error_for_excel e = ''Error: '' @ body"
  by (cases e) (simp_all add: str_error_def)

lemma SQLITE_blank:
  assumes "str_strip query = []"
  shows "SQLITE h query params = Inr (Text ''Error: empty query'')"
proof -
  from assms have "run_query h query params = Inl (Excel (QuerySyntaxError None (Some ''empty query'')))"
    by (simp add: run_query_def)
  from SQLITE_Excel [OF run_query_Inl [OF this]] show ?thesis by (simp add: str_error_def)
qed

text \<open>
  C1 (amended).  \<open>SQLITE\<close> lets no exception of class \<open>Exception\<close> out.  When the
  invocation succeeds it returns the frame.  When an error of this package is raised it
  returns \<open>Error: \<close> followed by the message of the error; a blank query gives
  \<open>Error: empty query\<close>.  An engine error is rendered by its kind: an operational error
  whose message begins with \<open>no such table:\<close> or \<open>no such column:\<close> (and holds the
  marker once) gives \<open>Error: no such table: \<close> or \<open>Error: no such column: \<close> and the
  trimmed rest of the message, an operational error without these markers gives
  \<open>Error: \<close> and the message, an integrity error \<open>Error: integrity error: \<close> and the
  message, a programming error \<open>Error: programming error: \<close> and the message, any other
  database error and any other exception \<open>Error: \<close> and the message.  So every failure
  of class \<open>Exception\<close> gives a text that starts with \<open>Error: \<close>.  An exception outside
  that class is not caught and leaves \<open>SQLITE\<close>.
\<close>

theorem SQLITE_result_by_outcome:
  "(execute_sqlite h query params = Inr df \<longrightarrow> SQLITE h query params = Inr (Frame df)) \<and>
   (execute_sqlite h query params = Inl (Excel x) \<longrightarrow>
      SQLITE h query params = Inr (Text (''Error: '' @ message x))) \<and>
   (str_strip query = [] \<longrightarrow> SQLITE h query params = Inr (Text ''Error: empty query'')) \<and>
   (execute_sqlite h query params = Inl (OperationalError (''no such table:'' @ name)) \<and>
    \<not> sublist ''no such table:'' name \<longrightarrow>
      SQLITE h query params = Inr (Text (''Error: no such table: '' @ str_strip name))) \<and>
   (execute_sqlite h query params = Inl (OperationalError (''no such column:'' @ name)) \<and>
    \<not> sublist ''no such table:'' (''no such column:'' @ name) \<and>
    \<not> sublist ''no such column:'' name \<longrightarrow>
      SQLITE h query params = Inr (Text (''Error: no such column: '' @ str_strip name))) \<and>
   (execute_sqlite h query params = Inl (OperationalError m) \<and>
    \<not> sublist ''no such table:'' m \<and> \<not> sublist ''no such column:'' m \<longrightarrow>
      SQLITE h query params = Inr (Text (''Error: '' @ m))) \<and>
   (execute_sqlite h query params = Inl (IntegrityError m) \<longrightarrow>
      SQLITE h query params = Inr (Text (''Error: integrity error: '' @ m))) \<and>
   (execute_sqlite h query params = Inl (ProgrammingError m) \<longrightarrow>
      SQLITE h query params = Inr (Text (''Error: programming error: '' @ m))) \<and>
   (execute_sqlite h query params = Inl (DatabaseError m) \<or>
    execute_sqlite h query params = Inl (OtherException m) \<longrightarrow>
      SQLITE h query params = Inr (Text (''Error: '' @ m))) \<and>
   (execute_sqlite h query params = Inl e \<and> (\<forall>m. e \<noteq> BaseException m) \<longrightarrow>
      (\<exists>body. SQLITE h query params = Inr (Text (''Error: '' @ body)))) \<and>
   (execute_sqlite h query params = Inl (BaseException m) \<longrightarrow>
      SQLITE h query params = Inl (BaseException m))"
proof (intro conjI impI)
  assume "execute_sqlite h query params = Inr df"
  then show "SQLITE h query params = Inr (Frame df)" by (simp add: SQLITE_def)
next
  assume "execute_sqlite h query params = Inl (Excel x)"
  from SQLITE_Excel [OF this] show "SQLITE h query params = Inr (Text (''Error: '' @ message x))"
    by (simp add: str_error_def)
next
  assume "str_strip query = []"
  then show "SQLITE h query params = Inr (Text ''Error: empty query'')" by (rule SQLITE_blank)
next
  assume a: "execute_sqlite h query params = Inl (OperationalError (''no such table:'' @ name)) \<and>
    \<not> sublist ''no such table:'' name"
  then have e: "execute_sqlite h query params = Inl (OperationalError (''no such table:'' @ name))"
    and n: "\<not> sublist ''no such table:'' name"
    by simp_all
  from SQLITE_Inl [OF e] have s: "SQLITE h query params =
      Inr (Text (format_error_for_excel (OperationalError (''no such table:'' @ name))))"
    by simp
  have "format_error_for_excel (OperationalError (''no such table:'' @ name))
          = str_error (TableNotFoundError (str_strip name))"
    by (simp only: format_error_for_excel.simps normalize_no_such_table [OF n])
  then show "SQLITE h query params = Inr (Text (''Error: no such table: '' @ str_strip name))"
    unfolding s by (simp add: str_error_def)
next
  assume a: "execute_sqlite h query params = Inl (OperationalError (''no such column:'' @ name)) \<and>
    \<not> sublist ''no such table:'' (''no such column:'' @ name) \<and>
    \<not> sublist ''no such column:'' name"
  then have e: "execute_sqlite h query params = Inl (OperationalError (''no such column:'' @ name))"
    and n: "\<not> sublist ''no such table:'' (''no such column:'' @ name)"
           "\<not> sublist ''no such column:'' name"
    by simp_all
  from SQLITE_Inl [OF e] have s: "SQLITE h query params =
      Inr (Text (format_error_for_excel (OperationalError (''no such column:'' @ name))))"
    by simp
  have "format_error_for_excel (OperationalError (''no such column:'' @ name))
          = str_error (ColumnNotFoundError (str_strip name))"
    by (simp only: format_error_for_excel.simps normalize_no_such_column [OF n])
  then show "SQLITE h query params = Inr (Text (''Error: no such column: '' @ str_strip name))"
    unfolding s by (simp add: str_error_def)
next
  assume a: "execute_sqlite h query params = Inl (OperationalError m) \<and>
    \<not> sublist ''no such table:'' m \<and> \<not> sublist ''no such column:'' m"
  then have e: "execute_sqlite h query params = Inl (OperationalError m)"
    and n: "\<not> sublist ''no such table:'' m" "\<not> sublist ''no such column:'' m"
    by simp_all
  from SQLITE_Inl [OF e] have s: "SQLITE h query params =
      Inr (Text (format_error_for_excel (OperationalError m)))"
    by simp
  have "format_error_for_excel (OperationalError m) = ''Error: '' @ m"
    by (simp only: format_error_for_excel.simps str_error_def normalize_other_operational [OF n])
  then show "SQLITE h query params = Inr (Text (''Error: '' @ m))"
    unfolding s by simp
next
  assume "execute_sqlite h query params = Inl (IntegrityError m)"
  then show "SQLITE h query params = Inr (Text (''Error: integrity error: '' @ m))"
    by (simp add: SQLITE_def str_error_def)
next
  assume "execute_sqlite h query params = Inl (ProgrammingError m)"
  then show "SQLITE h query params = Inr (Text (''Error: programming error: '' @ m))"
    by (simp add: SQLITE_def str_error_def)
next
  assume "execute_sqlite h query params = Inl (DatabaseError m) \<or>
    execute_sqlite h query params = Inl (OtherException m)"
  then show "SQLITE h query params = Inr (Text (''Error: '' @ m))"
    by (auto simp: SQLITE_def str_error_def)
next
  assume a: "execute_sqlite h query params = Inl e \<and> (\<forall>m. e \<noteq> BaseException m)"
  then have "SQLITE h query params = Inr (Text (format_error_for_excel e))"
    by (intro SQLITE_Inl) simp_all
  with starts_with_Error [of e] a
  show "\<exists>body. SQLITE h query params = Inr (Text (''Error: '' @ body))" by auto
next
  assume "execute_sqlite h query params = Inl (BaseException m)"
  then show "SQLITE h query params = Inl (BaseException m)" by (simp add: SQLITE_def)
qed

lemma run_query_failing: "run_query (failing_host e) ''SELECT 1'' [] = Inl e"
proof -
  have a: "str_strip ''SELECT 1'' \<noteq> []" "''SELECT 1'' \<noteq> []" by code_simp+
  have c: "extract_table_references ''SELECT 1'' = []" by code_simp
  have s: "CHR '';'' \<notin> set ''SELECT 1''" by code_simp
  show ?thesis
    using a s
    by (simp add: run_query_def c failing_host_def offline_host_def substitute_references_def
          execute_query_def)
qed

lemma execute_sqlite_one_row:
  "execute_sqlite (offline_host 1) ''SELECT 1'' [] =
     Inr \<lparr>df_columns = [''c''], df_rows = [[PInt 1]]\<rparr>"
proof -
  have "check_output_limits
          \<lparr>columns = [''c''], rows = replicate 1 [PInt 1 :: unit pyval], rowcount = int 1,
           lastrowid = None, query_type = ''SELECT''\<rparr> = None"
    by (simp add: check_output_limits_def EXCEL_MAX_ROWS_def EXCEL_MAX_COLS_def
          RECOMMENDED_MAX_ROWS_def)
  then show ?thesis
    unfolding execute_sqlite_def run_query_offline_select [of 1]
    by (simp add: format_result_def offline_host_def)
qed

lemma run_query_unresolved:
  "run_query (offline_host 1) ''SELECT * FROM Orders'' [] =
     Inl (Excel (RangeResolutionError ''Orders''
       (Some ''xl() function not available - must run in Python in Excel environment'')))"
proof -
  have a: "str_strip ''SELECT * FROM Orders'' \<noteq> []" "''SELECT * FROM Orders'' \<noteq> []"
    by code_simp+
  have c: "map original (extract_table_references ''SELECT * FROM Orders'') = [''Orders'']"
    by code_simp
  then obtain r where r: "extract_table_references ''SELECT * FROM Orders'' = [r]"
    and o: "original r = ''Orders''"
    by auto
  show ?thesis
    using a by (simp add: run_query_def r o offline_host_def)
qed

text \<open>
  The theorem at work on whole invocations: a one-row result, a blank query, a reference
  that the host does not resolve, and an engine that raises an error of each kind.
\<close>

theorem SQLITE_result_by_outcome_witness:
  "SQLITE (offline_host 1) ''SELECT 1'' [] = Inr (Frame \<lparr>df_columns = [''c''], df_rows = [[PInt 1]]\<rparr>) \<and>
   SQLITE (offline_host 1) ''  '' [] = Inr (Text ''Error: empty query'') \<and>
   SQLITE (offline_host 1) ''SELECT * FROM Orders'' [] =
     Inr (Text ''Error: cannot resolve range: Orders (xl() function not available - must run in Python in Excel environment)'') \<and>
   SQLITE (failing_host (OperationalError ''no such table: orders'')) ''SELECT 1'' [] =
     Inr (Text ''Error: no such table: orders'') \<and>
   SQLITE (failing_host (OperationalError ''no such column: total'')) ''SELECT 1'' [] =
     Inr (Text ''Error: no such column: total'') \<and>
   SQLITE (failing_host (OperationalError ''near \"FORM\": syntax error'')) ''SELECT 1'' [] =
     Inr (Text ''Error: near \"FORM\": syntax error'') \<and>
   SQLITE (failing_host (IntegrityError ''UNIQUE constraint failed: t.id'')) ''SELECT 1'' [] =
     Inr (Text ''Error: integrity error: UNIQUE constraint failed: t.id'') \<and>
   SQLITE (failing_host (ProgrammingError ''Cannot operate on a closed database.'')) ''SELECT 1'' [] =
     Inr (Text ''Error: programming error: Cannot operate on a closed database.'') \<and>
   SQLITE (failing_host (DatabaseError ''file is not a database'')) ''SELECT 1'' [] =
     Inr (Text ''Error: file is not a database'') \<and>
   (\<exists>body. SQLITE (failing_host (OtherException ''division by zero'')) ''SELECT 1'' [] =
     Inr (Text (''Error: '' @ body))) \<and>
   SQLITE (failing_host (BaseException ''KeyboardInterrupt'')) ''SELECT 1'' [] =
     Inl (BaseException ''KeyboardInterrupt'')"
proof -
  note f = run_query_Inl [OF run_query_failing]
  have w1: "SQLITE (offline_host 1) ''SELECT 1'' [] =
      Inr (Frame \<lparr>df_columns = [''c''], df_rows = [[PInt 1]]\<rparr>)"
    by (rule SQLITE_result_by_outcome [THEN conjunct1, THEN mp]) (rule execute_sqlite_one_row)
  have b: "str_strip ''  '' = []" by code_simp
  have w2: "SQLITE (offline_host 1) ''  '' [] = Inr (Text ''Error: empty query'')"
    by (rule SQLITE_result_by_outcome [THEN conjunct2, THEN conjunct2, THEN conjunct1, THEN mp])
       (rule b)
  have "SQLITE (offline_host 1) ''SELECT * FROM Orders'' [] =
      Inr (Text (''Error: '' @ message (RangeResolutionError ''Orders''
        (Some ''xl() function not available - must run in Python in Excel environment''))))"
    by (rule SQLITE_result_by_outcome [THEN conjunct2, THEN conjunct1, THEN mp])
       (rule run_query_Inl [OF run_query_unresolved])
  then have w3: "SQLITE (offline_host 1) ''SELECT * FROM Orders'' [] =
     Inr (Text ''Error: cannot resolve range: Orders (xl() function not available - must run in Python in Excel environment)'')"
    by simp
  have n4: "\<not> sublist ''no such table:'' '' orders''" and s4: "str_strip '' orders'' = ''orders''"
    by code_simp+
  have "SQLITE (failing_host (OperationalError (''no such table:'' @ '' orders''))) ''SELECT 1'' [] =
      Inr (Text (''Error: no such table: '' @ str_strip '' orders''))"
    by (rule SQLITE_result_by_outcome [THEN conjunct2, THEN conjunct2, THEN conjunct2,
          THEN conjunct1, THEN mp])
       (rule conjI [OF f n4])
  then have w4: "SQLITE (failing_host (OperationalError ''no such table: orders'')) ''SELECT 1'' [] =
     Inr (Text ''Error: no such table: orders'')"
    by (simp add: s4)
  have n5: "\<not> sublist ''no such table:'' (''no such column:'' @ '' total'')"
    "\<not> sublist ''no such column:'' '' total''" and s5: "str_strip '' total'' = ''total''"
    by code_simp+
  have "SQLITE (failing_host (OperationalError (''no such column:'' @ '' total''))) ''SELECT 1'' [] =
      Inr (Text (''Error: no such column: '' @ str_strip '' total''))"
    by (rule SQLITE_result_by_outcome [THEN conjunct2, THEN conjunct2, THEN conjunct2,
          THEN conjunct2, THEN conjunct1, THEN mp])
       (rule conjI [OF f conjI [OF n5(1) n5(2)]])
  then have w5: "SQLITE (failing_host (OperationalError ''no such column: total'')) ''SELECT 1'' [] =
     Inr (Text ''Error: no such column: total'')"
    by (simp add: s5)
  have n6: "\<not> sublist ''no such table:'' ''near \"FORM\": syntax error''"
    "\<not> sublist ''no such column:'' ''near \"FORM\": syntax error''"
    by code_simp+
  have w6: "SQLITE (failing_host (OperationalError ''near \"FORM\": syntax error'')) ''SELECT 1'' [] =
     Inr (Text (''Error: '' @ ''near \"FORM\": syntax error''))"
    by (rule SQLITE_result_by_outcome [THEN conjunct2, THEN conjunct2, THEN conjunct2,
          THEN conjunct2, THEN conjunct2, THEN conjunct1, THEN mp])
       (rule conjI [OF f conjI [OF n6(1) n6(2)]])
  have w7: "SQLITE (failing_host (IntegrityError ''UNIQUE constraint failed: t.id'')) ''SELECT 1'' [] =
     Inr (Text (''Error: integrity error: '' @ ''UNIQUE constraint failed: t.id''))"
    by (rule SQLITE_result_by_outcome [THEN conjunct2, THEN conjunct2, THEN conjunct2,
          THEN conjunct2, THEN conjunct2, THEN conjunct2, THEN conjunct1, THEN mp])
       (rule f)
  have w8: "SQLITE (failing_host (ProgrammingError ''Cannot operate on a closed database.'')) ''SELECT 1'' [] =
     Inr (Text (''Error: programming error: '' @ ''Cannot operate on a closed database.''))"
    by (rule SQLITE_result_by_outcome [THEN conjunct2, THEN conjunct2, THEN conjunct2,
          THEN conjunct2, THEN conjunct2, THEN conjunct2, THEN conjunct2, THEN conjunct1, THEN mp])
       (rule f)
  have w9: "SQLITE (failing_host (DatabaseError ''file is not a database'')) ''SELECT 1'' [] =
     Inr (Text (''Error: '' @ ''file is not a database''))"
    by (rule SQLITE_result_by_outcome [THEN conjunct2, THEN conjunct2, THEN conjunct2,
          THEN conjunct2, THEN conjunct2, THEN conjunct2, THEN conjunct2, THEN conjunct2,
          THEN conjunct1, THEN mp])
       (rule disjI1 [OF f])
  have o: "\<forall>m. OtherException ''division by zero'' \<noteq> BaseException m" by simp
  have w10: "\<exists>body. SQLITE (failing_host (OtherException ''division by zero'')) ''SELECT 1'' [] =
     Inr (Text (''Error: '' @ body))"
    by (rule SQLITE_result_by_outcome [THEN conjunct2, THEN conjunct2, THEN conjunct2,
          THEN conjunct2, THEN conjunct2, THEN conjunct2, THEN conjunct2, THEN conjunct2,
          THEN conjunct2, THEN conjunct1, THEN mp])
       (rule conjI [OF f o])
  have w11: "SQLITE (failing_host (BaseException ''KeyboardInterrupt'')) ''SELECT 1'' [] =
     Inl (BaseException ''KeyboardInterrupt'')"
    by (rule SQLITE_result_by_outcome [THEN conjunct2, THEN conjunct2, THEN conjunct2,
          THEN conjunct2, THEN conjunct2, THEN conjunct2, THEN conjunct2, THEN conjunct2,
          THEN conjunct2, THEN conjunct2, THEN mp])
       (rule f)
  from w6 w7 w8 w9 have w69:
    "SQLITE (failing_host (OperationalError ''near \"FORM\": syntax error'')) ''SELECT 1'' [] =
       Inr (Text ''Error: near \"FORM\": syntax error'')"
    "SQLITE (failing_host (IntegrityError ''UNIQUE constraint failed: t.id'')) ''SELECT 1'' [] =
       Inr (Text ''Error: integrity error: UNIQUE constraint failed: t.id'')"
    "SQLITE (failing_host (ProgrammingError ''Cannot operate on a closed database.'')) ''SELECT 1'' [] =
       Inr (Text ''Error: programming error: Cannot operate on a closed database.'')"
    "SQLITE (failing_host (DatabaseError ''file is not a database'')) ''SELECT 1'' [] =
       Inr (Text ''Error: file is not a database'')"
    by simp_all
  show ?thesis
    by (intro conjI) (rule w1 w2 w3 w4 w5 w69 w10 w11)+
qed

text \<open>
  C1 as stated fails in the rendering: a result of 2,000,000 rows is a failure of the
  kind \<open>OutputLimit\<close>, and the text returned for it is not the canonical text of that
  kind, which begins with \<open>Error: result set too large\<close>.
\<close>

theorem over_limit_rendering_counterexample:
  "SQLITE (offline_host 2000000) ''SELECT 1'' [] =
     Inr (Text ''Error: Result has 2,000,000 rows, exceeding Excel's limit of 1,048,576. Use LIMIT clause to reduce output.'') \<and>
   str_error (OutputLimitError 2000000 1048576) =
     ''Error: result set too large: 2000000 rows (limit: 1048576). Use LIMIT clause to reduce output.'' \<and>
   \<not> prefix ''Error: result set too large''
     ''Error: Result has 2,000,000 rows, exceeding Excel's limit of 1,048,576. Use LIMIT clause to reduce output.''"
proof -
  have f: "fmt_commas 2000000 = ''2,000,000''"
    by (simp add: fmt_commas.simps str_nat.simps digit_char_def pad3_def)
  have g: "str_error (OutputLimitError 2000000 1048576) =
     ''Error: result set too large: 2000000 rows (limit: 1048576). Use LIMIT clause to reduce output.''"
    by (simp add: str_error_def str_int_def str_nat.simps digit_char_def)
  from SQLITE_over_limit [OF run_query_offline_select [of 2000000]] f
  have s: "SQLITE (offline_host 2000000) ''SELECT 1'' [] =
     Inr (Text ''Error: Result has 2,000,000 rows, exceeding Excel's limit of 1,048,576. Use LIMIT clause to reduce output.'')"
    by (simp add: limit_text_def)
  have p: "\<not> prefix ''Error: result set too large''
     ''Error: Result has 2,000,000 rows, exceeding Excel's limit of 1,048,576. Use LIMIT clause to reduce output.''"
    by simp
  show ?thesis unfolding s g using p by simp
qed

section \<open>References out of literals\<close>

text \<open>
  C5 fails on the code.  In \<open>SELECT 'a''.FROM x y'\<close> everything from the first quote to
  the end is one string literal (the doubled quote does not close it).  The look-ahead
  of \<open>_remove_string_literals\<close> takes the second quote of the pair for the closing quote
  and, since a \<open>.\<close> follows, keeps \<open>'a''.\<close> as a sheet name; the text behind it stays
  in the search string and \<open>x\<close> is extracted as a reference.
\<close>

theorem reference_from_inside_literal:
  "drop 7 (literal_mask False (''SELECT 'a'' @ [CHR 0x27, CHR 0x27] @ ''.FROM x y'' @ [CHR 0x27]))
     = replicate 14 True \<and>
   remove_string_literals (''SELECT 'a'' @ [CHR 0x27, CHR 0x27] @ ''.FROM x y'' @ [CHR 0x27])
     = ''SELECT 'a'' @ [CHR 0x27, CHR 0x27] @ ''.FROM x y '' \<and>
   extract_table_references (''SELECT 'a'' @ [CHR 0x27, CHR 0x27] @ ''.FROM x y'' @ [CHR 0x27])
     = [\<lparr>original = ''x'', sheet_name = None, table_name = Some ''x'', range_ref = None,
         sqlite_name = ''x''\<rparr>]"
  by code_simp

section \<open>Uniqueness of references\<close>

lemma str_strip_trimmed: "trimmed t \<Longrightarrow> str_strip t = t"
proof -
  assume t: "trimmed t"
  then obtain x xs where r: "rev t = x # xs" and x: "\<not> isspace x"
    by (cases "rev t") (auto simp: trimmed_def last_rev [symmetric] simp del: last_rev)
  from r x have "dropWhile isspace (rev t) = rev t" by simp
  then have "rstrip t = t"
    unfolding rstrip_def by simp
  moreover from t obtain y ys where "t = y # ys" "\<not> isspace y"
    by (cases t) (auto simp: trimmed_def)
  ultimately show ?thesis by (simp add: str_strip_def lstrip_def)
qed

lemma str_strip_cases: "str_strip s = [] \<or> trimmed (str_strip s)"
proof (cases "str_strip s = []")
  case False
  let ?r = "rstrip s"
  have l: "?r = [] \<or> \<not> isspace (last ?r)"
  proof (cases "dropWhile isspace (rev s)")
    case Nil
    then show ?thesis by (simp add: rstrip_def)
  next
    case (Cons x xs)
    then have "\<not> isspace x" using hd_dropWhile [of isspace "rev s"] by auto
    with Cons show ?thesis by (simp add: rstrip_def)
  qed
  from False have ne: "dropWhile isspace ?r \<noteq> []" by (simp add: str_strip_def lstrip_def)
  then have h: "\<not> isspace (hd (dropWhile isspace ?r))" by (rule hd_dropWhile)
  from ne have rne: "?r \<noteq> []" by auto
  from ne obtain ys where "?r = takeWhile isspace ?r @ dropWhile isspace ?r" by simp
  with ne have "last (dropWhile isspace ?r) = last ?r"
    by (metis last_appendR)
  with l rne have "\<not> isspace (last (dropWhile isspace ?r))" by simp
  with ne h show ?thesis by (simp add: trimmed_def str_strip_def lstrip_def)
qed simp

lemma str_strip_idem: "str_strip (str_strip s) = str_strip s"
  using str_strip_cases [of s] str_strip_trimmed [of "str_strip s"] str_strip_Nil by auto


lemma ident_char_not_space: "ident_char c \<Longrightarrow> \<not> isspace c"
  by (auto simp: ident_char_def isalnum_def isalpha_def isupper_def islower_def isdigit_def
        isspace_def Let_def)

lemma quote_not_space: "\<not> isspace (CHR 0x27)" "\<not> isspace (CHR 0x22)"
  by (simp_all add: isspace_def)

lemma scan_quoted_shape:
  "scan_quoted q acc s = Some r \<Longrightarrow> acc \<noteq> [] \<Longrightarrow> r \<noteq> [] \<and> hd r = hd acc \<and> last r = q"
  by (induction q acc s rule: scan_quoted.induct) (auto split: if_splits list.splits)

lemma extract_identifier_trimmed: "extract_identifier s = Some r \<Longrightarrow> trimmed r"
proof -
  assume a: "extract_identifier s = Some r"
  then obtain c cs where s: "s = c # cs" by (cases s) (auto simp: extract_identifier_def)
  consider (dq) "c = CHR 0x22" | (sq) "c \<noteq> CHR 0x22" "c = CHR 0x27"
    | (plain) "c \<noteq> CHR 0x22" "c \<noteq> CHR 0x27" by blast
  then show ?thesis
  proof cases
    case dq
    with a s have "scan_quoted (CHR 0x22) [c] cs = Some r" by (simp add: extract_identifier_def)
    from scan_quoted_shape [OF this] dq show ?thesis by (simp add: trimmed_def quote_not_space)
  next
    case sq
    with a s have "scan_quoted (CHR 0x27) [c] cs = Some r" by (simp add: extract_identifier_def)
    from scan_quoted_shape [OF this] sq show ?thesis by (simp add: trimmed_def quote_not_space)
  next
    case plain
    with a s have r: "r = takeWhile ident_char s" "r \<noteq> []"
      by (auto simp: extract_identifier_def Let_def split: if_splits)
    then have "hd r \<in> set r" "last r \<in> set r" by simp_all
    with r(1) have "ident_char (hd r)" "ident_char (last r)"
      by (auto dest: set_takeWhileD)
    with r(2) show ?thesis by (simp add: trimmed_def ident_char_not_space)
  qed
qed

lemma trimmed_append: "trimmed a \<Longrightarrow> trimmed b \<Longrightarrow> trimmed (a @ m @ b)"
  by (simp add: trimmed_def)

lemma trimmed_quoted: "trimmed (CHR 0x27 # inner @ [CHR 0x27])"
  by (simp add: trimmed_def quote_not_space)

lemma trimmed_quoted_sheet: "trimmed r \<Longrightarrow> trimmed (CHR 0x27 # a @ CHR 0x27 # n # r)"
  by (simp add: trimmed_def quote_not_space)

lemma trimmed_chain: "trimmed i \<Longrightarrow> trimmed r \<Longrightarrow> trimmed (i @ n # r)"
  by (simp add: trimmed_def)

lemma trimmed_chain_quoted: "trimmed i \<Longrightarrow> trimmed (i @ n # CHR 0x27 # inner @ [CHR 0x27])"
  by (simp add: trimmed_def quote_not_space)

lemma extract_reference_trimmed:
  assumes "extract_reference_at_position text = Some t"
  shows "trimmed t"
proof (cases "dropWhile isspace text")
  case Nil
  with assms show ?thesis by (simp add: extract_reference_at_position_def)
next
  case (Cons c cs)
  show ?thesis
  proof (cases "c = CHR 0x27")
    case True
    with assms Cons show ?thesis
      by (auto simp: extract_reference_at_position_def
            split: option.splits list.splits if_splits
            intro!: trimmed_quoted_sheet dest!: extract_identifier_trimmed)
  next
    case False
    with assms Cons show ?thesis
      by (auto simp: extract_reference_at_position_def Let_def
            split: option.splits list.splits if_splits
            intro!: trimmed_chain trimmed_chain_quoted dest!: extract_identifier_trimmed)
  qed
qed


lemma parse_reference_original: "parse_reference t = Some r \<Longrightarrow> original r = str_strip t"
  by (auto simp: parse_reference_def Let_def split: if_splits option.splits)

lemma add_references_inv:
  assumes "\<forall>t. Some t \<in> set ts \<longrightarrow> str_strip t = t" and "refs_inv st"
  shows "refs_inv (add_references ts st)"
  using assms
proof (induction ts st rule: add_references.induct)
  case (1 references seen)
  then show ?case by simp
next
  case (2 ts references seen)
  then show ?case by simp
next
  case (3 ref_text ts references seen)
  from "3.prems"(1) have rest: "\<forall>t. Some t \<in> set ts \<longrightarrow> str_strip t = t"
    and fx: "str_strip ref_text = ref_text" by simp_all
  show ?case
  proof (cases "ref_text \<noteq> [] \<and> ref_text \<notin> seen")
    case False
    with "3.IH"(3) [OF _ rest "3.prems"(2)] show ?thesis by auto
  next
    case True
    show ?thesis
    proof (cases "parse_reference ref_text")
      case None
      with True "3.IH"(1) [OF True None rest "3.prems"(2)] show ?thesis by simp
    next
      case (Some ref)
      with parse_reference_original fx have o: "original ref = ref_text" by simp
      from "3.prems"(2) True o have "refs_inv (references @ [ref], insert ref_text seen)"
        by (auto simp: refs_inv_def)
      from "3.IH"(2) [OF True Some rest this] True Some show ?thesis by simp
    qed
  qed
qed

text \<open>
  C9 (amended).  Within one invocation the extracted references are pairwise distinct in
  their original text (compared exactly, case included); nothing makes the derived engine
  names distinct.
\<close>

theorem extracted_originals_distinct:
  "distinct (map original (extract_table_references query))"
proof -
  let ?c = "remove_comments (remove_string_literals query)"
  have a: "\<forall>t. Some t \<in> set (map extract_reference_at_position (from_join_matches None ?c))
             \<longrightarrow> str_strip t = t"
    by (auto dest!: extract_reference_trimmed [OF sym] intro: str_strip_trimmed)
  have b: "\<forall>t. Some t \<in> set (map (\<lambda>g. Some (str_strip g)) (update_matches None ?c))
             \<longrightarrow> str_strip t = t"
    by (auto simp: str_strip_idem)
  have c: "\<forall>t. Some t \<in> set (map (\<lambda>g. Some (str_strip g)) (insert_matches None ?c))
             \<longrightarrow> str_strip t = t"
    by (auto simp: str_strip_idem)
  have "refs_inv ([], {})" by (simp add: refs_inv_def)
  from add_references_inv [OF c add_references_inv [OF b add_references_inv [OF a this]]]
  show ?thesis by (simp add: extract_table_references_def Let_def refs_inv_def)
qed

text \<open>
  C9 as stated fails: two references that differ only in case are both extracted and
  get the same engine name.
\<close>

theorem engine_names_collide_counterexample:
  "extract_table_references ''SELECT * FROM Orders o JOIN orders p ON o.id = p.id'' =
     [\<lparr>original = ''Orders'', sheet_name = None, table_name = Some ''Orders'', range_ref = None,
       sqlite_name = ''orders''\<rparr>,
      \<lparr>original = ''orders'', sheet_name = None, table_name = Some ''orders'', range_ref = None,
       sqlite_name = ''orders''\<rparr>] \<and>
   \<not> distinct (map sqlite_name
       (extract_table_references ''SELECT * FROM Orders o JOIN orders p ON o.id = p.id''))"
  by code_simp

section \<open>Rewriting references\<close>



















end
